theory Spec2Isabelle
  imports Main "HOL-Library.Word"
begin

unbundle bit_operations_syntax

section \<open>Bytes and strings\<close>

text \<open>
  A Go \<^verbatim>\<open>[]byte\<close> is a list of 8-bit words, a Go \<^verbatim>\<open>string\<close> a list of 8-bit
  characters; \<^verbatim>\<open>[]byte(s)\<close> and \<^verbatim>\<open>string(b)\<close> keep the bytes.
\<close>

type_synonym byte = "8 word"

definition bytes_of :: "string \<Rightarrow> byte list" where
  "bytes_of s = map (\<lambda>c. of_nat (of_char c)) s"

definition string_of :: "byte list \<Rightarrow> string" where
  "string_of bs = map (\<lambda>b. char_of (unat b)) bs"

section \<open>Protocol data (package transfer)\<close>

text \<open>\<^verbatim>\<open>type MessageType uint8\<close> with its \<^verbatim>\<open>iota\<close> constants.\<close>

definition MsgManifest :: byte where "MsgManifest = 0"
definition MsgResume :: byte where "MsgResume = 1"
definition MsgFileStart :: byte where "MsgFileStart = 2"
definition MsgFileEnd :: byte where "MsgFileEnd = 3"
definition MsgComplete :: byte where "MsgComplete = 4"
definition MsgError :: byte where "MsgError = 5"
definition MsgHandshake :: byte where "MsgHandshake = 6"
definition MsgHandshakeAck :: byte where "MsgHandshakeAck = 7"

record Message =
  Type :: byte
  Payload :: "byte list"

record FileEntry =
  Path :: string
  Size :: int
  Mode :: nat
  Checksum :: string
  BlockHashes :: "string list"
  BlockSize :: int

record Manifest =
  FolderName :: string
  TotalSize :: int
  Files :: "FileEntry list"

record FileStartMsg =
  fsPath :: string
  fsSize :: int
  fsOffset :: int

definition BlockSize_const :: int where "BlockSize_const = 16 * 1024 * 1024"
definition LegacyBlockSize :: int where "LegacyBlockSize = 1024 * 1024"
definition MaxMessageSize :: nat where "MaxMessageSize = 104857600"

text \<open>
  Every error value the transfer code builds: the sentinel errors of \<^verbatim>\<open>io\<close>, the
  failures of \<^verbatim>\<open>os\<close> and \<^verbatim>\<open>encoding/json\<close>, and one constructor for each
  \<^verbatim>\<open>fmt.Errorf\<close> of the package (\<open>Wrapped\<close> is \<^verbatim>\<open>%w\<close> under a context string).
\<close>

datatype error =
    EOF
  | ErrUnexpectedEOF
  | MessageTooLarge nat
  | JSONError
  | NotExist string
  | NotADirectory string
  | IsADirectory string
  | Wrapped string error
  | HandshakeRejected "byte list"
  | ExpectedHandshakeAck byte
  | ExpectedManifest byte
  | RejectedByUser
  | InvalidFolderName string
  | InvalidFilePath string
  | ZipSlip string
  | ExpectedFileEnd byte
  | ShortData int int
  | ChecksumMismatch string string string
  | SenderError "byte list"
  | UnexpectedMessageType byte
  | ExpectedHandshake byte
  | InvalidConnectionCode
  | ExpectedResume byte
  | IncompleteTransfer int int
  | GzipError
  | Panic string

section \<open>Library functions\<close>

text \<open>
  \<^verbatim>\<open>encoding/json\<close>, \<^verbatim>\<open>lukechampine.com/blake3\<close> and \<^verbatim>\<open>compress/gzip\<close> are libraries:
  the transfer functions take them as a parameter. There is one pair of marshalling and
  unmarshalling functions for each Go type they are used at; marshalling these types cannot
  fail, and unmarshalling returns \<open>None\<close> for an error. \<open>blake3Sum256\<close> is the 32-byte
  digest of a byte sequence. \<open>gzipWrite\<close> is what a gzip writer puts on the stream for the
  bytes written through it, \<open>gzipRead\<close> what a gzip reader returns for the bytes of the
  stream (\<open>None\<close> when \<^verbatim>\<open>gzip.NewReader\<close> fails).
\<close>

type_synonym offsets = "(string \<times> int) list"

record Libs =
  marshalMessage :: "Message \<Rightarrow> byte list"
  unmarshalMessage :: "byte list \<Rightarrow> Message option"
  unmarshalHandshake :: "byte list \<Rightarrow> string option"
  marshalHandshakeAck :: "bool \<Rightarrow> byte list"
  unmarshalHandshakeAck :: "byte list \<Rightarrow> bool option"
  marshalManifest :: "Manifest \<Rightarrow> byte list"
  marshalIndentManifest :: "Manifest \<Rightarrow> byte list"
  unmarshalManifest :: "byte list \<Rightarrow> Manifest option"
  marshalResume :: "offsets \<Rightarrow> byte list"
  unmarshalResume :: "byte list \<Rightarrow> offsets option"
  marshalFileStart :: "FileStartMsg \<Rightarrow> byte list"
  unmarshalFileStart :: "byte list \<Rightarrow> FileStartMsg option"
  blake3Sum256 :: "byte list \<Rightarrow> byte list"
  gzipWrite :: "byte list \<Rightarrow> byte list"
  gzipRead :: "byte list \<Rightarrow> byte list option"

text \<open>\<^verbatim>\<open>hex.EncodeToString\<close>, and \<^verbatim>\<open>%x\<close> of a byte slice: two lower-case digits a byte.\<close>

definition hexdigit :: "nat \<Rightarrow> char" where
  "hexdigit n = ''0123456789abcdef'' ! n"

definition hexEncode :: "byte list \<Rightarrow> string" where
  "hexEncode bs = concat (map (\<lambda>b. [hexdigit (unat b div 16), hexdigit (unat b mod 16)]) bs)"

section \<open>Framing: WriteMessage and ReadMessage\<close>

text \<open>
  A writer is the list of bytes written so far; writes to it do not fail. The length is
  \<^verbatim>\<open>uint32(len(data))\<close>, so it wraps at \<open>2 ^ 32\<close>.
\<close>

definition lengthBytes :: "32 word \<Rightarrow> byte list" where
  "lengthBytes l = [ucast (drop_bit 24 l), ucast (drop_bit 16 l), ucast (drop_bit 8 l), ucast l]"

definition WriteMessage :: "Libs \<Rightarrow> byte list \<Rightarrow> Message \<Rightarrow> byte list" where
  "WriteMessage L w msg =
     (let data = marshalMessage L msg;
          l = (of_nat (length data) :: 32 word)
      in w @ lengthBytes l @ data)"

text \<open>
  A reader is the list of bytes still to come, followed by end of stream.
  \<^verbatim>\<open>io.ReadFull\<close> fills a buffer of \<open>n\<close> bytes, or fails with \<^verbatim>\<open>io.EOF\<close> when no byte
  was read and \<^verbatim>\<open>io.ErrUnexpectedEOF\<close> when some but not all were; a buffer of length 0 is
  filled without reading.
\<close>

definition ReadFull :: "byte list \<Rightarrow> nat \<Rightarrow> (error + byte list) \<times> byte list" where
  "ReadFull r n =
     (if n \<le> length r then (Inr (take n r), drop n r)
      else if r = [] then (Inl EOF, [])
      else (Inl ErrUnexpectedEOF, []))"

definition uint32be :: "byte list \<Rightarrow> 32 word" where
  "uint32be b = push_bit 24 (ucast (b ! 0)) OR push_bit 16 (ucast (b ! 1))
                OR push_bit 8 (ucast (b ! 2)) OR ucast (b ! 3)"

text \<open>
  The result of \<open>ReadMessage\<close> is the message or the error, the reader after the call, and
  the sizes of the buffers made with \<^verbatim>\<open>make\<close>, in the order they were made.
\<close>

definition ReadMessage :: "Libs \<Rightarrow> byte list \<Rightarrow> (error + Message) \<times> byte list \<times> nat list" where
  "ReadMessage L r =
     (case ReadFull r 4 of
        (Inl e, r1) \<Rightarrow> (Inl e, r1, [4])
      | (Inr lb, r1) \<Rightarrow>
          (let l = uint32be lb in
           if unat l > MaxMessageSize then (Inl (MessageTooLarge (unat l)), r1, [4])
           else (case ReadFull r1 (unat l) of
                   (Inl e, r2) \<Rightarrow> (Inl e, r2, [4, unat l])
                 | (Inr data, r2) \<Rightarrow>
                     (case unmarshalMessage L data of
                        None \<Rightarrow> (Inl JSONError, r2, [4, unat l])
                      | Some msg \<Rightarrow> (Inr msg, r2, [4, unat l])))))"

section \<open>The JSON text of a Message\<close>

text \<open>
  \<^verbatim>\<open>json.Marshal\<close> of a \<open>Message\<close> writes the fields in declaration order without white
  space: \<^verbatim>\<open>type\<close> as a decimal number and \<^verbatim>\<open>payload\<close>, left out when empty
  (\<^verbatim>\<open>omitempty\<close>), as a string in standard base64 with padding. \<open>b64char\<close> is the
  alphabet of that encoding: the capital letters, the small letters, the digits, \<^verbatim>\<open>+\<close>
  and \<^verbatim>\<open>/\<close>.
\<close>

definition b64char :: "nat \<Rightarrow> char" where
  "b64char n =
     (if n < 26 then char_of (65 + n)
      else if n < 52 then char_of (71 + n)
      else if n < 62 then char_of (n - 4)
      else if n = 62 then CHR ''+'' else CHR ''/'')"

fun base64 :: "byte list \<Rightarrow> string" where
  "base64 (a # b # c # xs) =
     [b64char (unat a div 4), b64char ((unat a mod 4) * 16 + unat b div 16),
      b64char ((unat b mod 16) * 4 + unat c div 64), b64char (unat c mod 64)] @ base64 xs"
| "base64 [a, b] =
     [b64char (unat a div 4), b64char ((unat a mod 4) * 16 + unat b div 16),
      b64char ((unat b mod 16) * 4), CHR ''='']"
| "base64 [a] = [b64char (unat a div 4), b64char ((unat a mod 4) * 16), CHR ''='', CHR ''='']"
| "base64 [] = []"

fun decimal :: "nat \<Rightarrow> string" where
  "decimal n = (if n < 10 then [char_of (48 + n)] else decimal (n div 10) @ [char_of (48 + n mod 10)])"

declare decimal.simps [simp del]

definition jsonMarshalMessage :: "Message \<Rightarrow> byte list" where
  \<open>jsonMarshalMessage m =
     bytes_of (''{"type":'' @ decimal (unat (Type m))
               @ (if Payload m = [] then [] else '',"payload":"'' @ base64 (Payload m) @ ''"'')
               @ ''}'')\<close>

text \<open>
  The inverse direction, for the texts \<open>jsonMarshalMessage\<close> writes. On any other text
  it answers \<open>None\<close>, where \<^verbatim>\<open>json.Unmarshal\<close> accepts more (white space, other field
  orders, unknown fields); the transfer functions never call it directly, they take the
  unmarshalling function of their parameter.
\<close>

definition b64val :: "char \<Rightarrow> nat option" where
  "b64val c =
     (let n = (of_char c :: nat) in
      if 65 \<le> n \<and> n \<le> 90 then Some (n - 65)
      else if 97 \<le> n \<and> n \<le> 122 then Some (n - 71)
      else if 48 \<le> n \<and> n \<le> 57 then Some (n + 4)
      else if n = 43 then Some 62
      else if n = 47 then Some 63
      else None)"

fun unbase64 :: "string \<Rightarrow> byte list option" where
  "unbase64 [] = Some []"
| "unbase64 (w # x # y # z # cs) =
     (case (b64val w, b64val x) of
        (Some p, Some q) \<Rightarrow>
          (if y = CHR ''='' \<and> z = CHR ''='' \<and> cs = [] then
             (if q mod 16 = 0 then Some [of_nat (p * 4 + q div 16)] else None)
           else (case b64val y of
                   None \<Rightarrow> None
                 | Some u \<Rightarrow>
                     (if z = CHR ''='' \<and> cs = [] then
                        (if u mod 4 = 0
                         then Some [of_nat (p * 4 + q div 16), of_nat ((q mod 16) * 16 + u div 4)]
                         else None)
                      else (case (b64val z, unbase64 cs) of
                              (Some v, Some rest) \<Rightarrow>
                                Some (of_nat (p * 4 + q div 16) # of_nat ((q mod 16) * 16 + u div 4)
                                      # of_nat ((u mod 4) * 64 + v) # rest)
                            | _ \<Rightarrow> None))))
      | _ \<Rightarrow> None)"
| "unbase64 _ = None"

fun stripPrefix :: "'a list \<Rightarrow> 'a list \<Rightarrow> 'a list option" where
  "stripPrefix [] ys = Some ys"
| "stripPrefix (x # xs) [] = None"
| "stripPrefix (x # xs) (y # ys) = (if x = y then stripPrefix xs ys else None)"

definition isDigit :: "char \<Rightarrow> bool" where
  "isDigit c = (48 \<le> (of_char c :: nat) \<and> (of_char c :: nat) \<le> 57)"

definition undecimal :: "string \<Rightarrow> nat" where
  "undecimal ds = foldl (\<lambda>n c. 10 * n + (of_char c - 48)) 0 ds"

definition jsonUnmarshalMessage :: "byte list \<Rightarrow> Message option" where
  \<open>jsonUnmarshalMessage bs =
     (case stripPrefix ''{"type":'' (string_of bs) of
        None \<Rightarrow> None
      | Some r1 \<Rightarrow>
          (let ds = takeWhile isDigit r1; r2 = dropWhile isDigit r1 in
           if ds = [] \<or> 3 < length ds \<or> (1 < length ds \<and> hd ds = CHR ''0'') \<or> 255 < undecimal ds
           then None
           else if r2 = ''}'' then Some \<lparr>Type = of_nat (undecimal ds), Payload = []\<rparr>
           else (case stripPrefix '',"payload":"'' r2 of
                   None \<Rightarrow> None
                 | Some r3 \<Rightarrow>
                     (if dropWhile (\<lambda>c. c \<noteq> CHR 0x22) r3 = ''"}''
                      then map_option (\<lambda>p. \<lparr>Type = of_nat (undecimal ds), Payload = p\<rparr>)
                             (unbase64 (takeWhile (\<lambda>c. c \<noteq> CHR 0x22) r3))
                      else None))))\<close>

section \<open>Paths (package path/filepath, with separator /)\<close>

text \<open>\<^verbatim>\<open>strings.Split(s, "/")\<close>.\<close>

fun splitSlash :: "string \<Rightarrow> string list" where
  "splitSlash [] = [[]]"
| "splitSlash (c # cs) =
     (if c = CHR ''/'' then [] # splitSlash cs
      else (case splitSlash cs of [] \<Rightarrow> [[c]] | x # xs \<Rightarrow> (c # x) # xs))"

fun joinSlash :: "string list \<Rightarrow> string" where
  "joinSlash [] = []"
| "joinSlash [x] = x"
| "joinSlash (x # y # ys) = x @ ''/'' @ joinSlash (y # ys)"

text \<open>
  \<^verbatim>\<open>filepath.Clean\<close> works through the elements of the path: an empty element and
  \<^verbatim>\<open>.\<close> are dropped; \<^verbatim>\<open>..\<close> removes the element before it, is dropped at the root of
  a rooted path, and is kept at the start of a relative one. The elements kept are held
  last first.
\<close>

definition cleanStep :: "bool \<Rightarrow> string list \<Rightarrow> string \<Rightarrow> string list" where
  "cleanStep rooted out c =
     (if c = [] \<or> c = ''.'' then out
      else if c = ''..'' then
        (case out of
           [] \<Rightarrow> (if rooted then [] else [''..''])
         | e # rest \<Rightarrow> (if e = ''..'' then ''..'' # out else rest))
      else c # out)"

definition Clean :: "string \<Rightarrow> string" where
  "Clean path =
     (if path = [] then ''.''
      else let rooted = (hd path = CHR ''/'');
               out = rev (foldl (cleanStep rooted) [] (splitSlash path))
           in if rooted then CHR ''/'' # joinSlash out
              else if out = [] then ''.'' else joinSlash out)"

text \<open>\<^verbatim>\<open>filepath.Join\<close> of two elements; \<^verbatim>\<open>filepath.FromSlash\<close> is the identity here.\<close>

definition Join :: "string \<Rightarrow> string \<Rightarrow> string" where
  "Join a b =
     (if a \<noteq> [] then Clean (a @ ''/'' @ b)
      else if b \<noteq> [] then Clean b
      else [])"

definition Dir_of :: "string \<Rightarrow> string" where
  "Dir_of path = Clean (rev (dropWhile (\<lambda>c. c \<noteq> CHR ''/'') (rev path)))"

definition Base :: "string \<Rightarrow> string" where
  "Base path =
     (if path = [] then ''.''
      else let p = rev (dropWhile (\<lambda>c. c = CHR ''/'') (rev path))
           in if p = [] then ''/'' else rev (takeWhile (\<lambda>c. c \<noteq> CHR ''/'') (rev p)))"

text \<open>\<^verbatim>\<open>strings.HasPrefix\<close>.\<close>

definition HasPrefix :: "string \<Rightarrow> string \<Rightarrow> bool" where
  "HasPrefix s p = (take (length p) s = p)"

section \<open>The file system\<close>

text \<open>
  The disk is a list of paths with what is there, a directory or a regular file with its
  bytes and permission bits; symbolic links are not modelled. Every path given to
  \<^verbatim>\<open>os\<close> is looked up cleaned. The world also keeps the log of the \<^verbatim>\<open>os\<close> calls made,
  oldest first.
\<close>

datatype node = Dir | File (content: "byte list") (perm: nat)

type_synonym fs = "(string \<times> node) list"

datatype fsop =
    OpStat string
  | OpOpen string
  | OpReadFile string
  | OpMkdirAll string
  | OpOpenFile string
  | OpTruncate string
  | OpWrite string
  | OpWriteFile string

record world =
  files :: fs
  ops :: "fsop list"

definition fsPut :: "string \<Rightarrow> node \<Rightarrow> fs \<Rightarrow> fs" where
  "fsPut p n f = (if p \<in> set (map fst f) then map (\<lambda>(q, m). if q = p then (q, n) else (q, m)) f
                  else f @ [(p, n)])"

definition logOp :: "fsop \<Rightarrow> world \<Rightarrow> world" where
  "logOp e w = w\<lparr>ops := ops w @ [e]\<rparr>"

text \<open>
  \<^verbatim>\<open>os.Stat\<close>: the size of a directory, which the system chooses, is not modelled and
  is given as 0.
\<close>

record FileInfo =
  isDir :: bool
  size :: int
  mode :: nat

definition os_Stat :: "world \<Rightarrow> string \<Rightarrow> (error + FileInfo) \<times> world" where
  "os_Stat w p =
     (case map_of (files w) (Clean p) of
        None \<Rightarrow> (Inl (NotExist p), logOp (OpStat (Clean p)) w)
      | Some Dir \<Rightarrow> (Inr \<lparr>isDir = True, size = 0, mode = 493\<rparr>, logOp (OpStat (Clean p)) w)
      | Some (File c m) \<Rightarrow>
          (Inr \<lparr>isDir = False, size = int (length c), mode = m\<rparr>, logOp (OpStat (Clean p)) w))"

text \<open>
  \<^verbatim>\<open>os.Open\<close> for reading: the result is the node opened. Opening a directory
  succeeds; reading from it fails.
\<close>

definition os_Open :: "world \<Rightarrow> string \<Rightarrow> (error + node) \<times> world" where
  "os_Open w p =
     (case map_of (files w) (Clean p) of
        None \<Rightarrow> (Inl (NotExist p), logOp (OpOpen (Clean p)) w)
      | Some n \<Rightarrow> (Inr n, logOp (OpOpen (Clean p)) w))"

definition os_ReadFile :: "world \<Rightarrow> string \<Rightarrow> (error + byte list) \<times> world" where
  "os_ReadFile w p =
     (case map_of (files w) (Clean p) of
        None \<Rightarrow> (Inl (NotExist p), logOp (OpReadFile (Clean p)) w)
      | Some Dir \<Rightarrow> (Inl (IsADirectory p), logOp (OpReadFile (Clean p)) w)
      | Some (File c m) \<Rightarrow> (Inr c, logOp (OpReadFile (Clean p)) w))"

text \<open>
  \<^verbatim>\<open>os.MkdirAll\<close> makes the directory and every missing parent, and fails when one of them
  is a regular file. \<open>ancestors\<close> lists the path and its parents, outermost first, without
  the root, the current directory and the \<^verbatim>\<open>..\<close> above it, which exist.
\<close>

fun prefixesFrom :: "string \<Rightarrow> string list \<Rightarrow> string list" where
  "prefixesFrom acc [] = []"
| "prefixesFrom acc (c # cs) =
     (let p = (if acc = [] then c else if acc = ''/'' then acc @ c else acc @ ''/'' @ c)
      in p # prefixesFrom p cs)"

definition ancestors :: "string \<Rightarrow> string list" where
  "ancestors p =
     (let q = Clean p
      in filter (\<lambda>a. Base a \<noteq> ''..'')
           (prefixesFrom (if hd q = CHR ''/'' then ''/'' else [])
              (filter (\<lambda>c. c \<noteq> [] \<and> c \<noteq> ''.'') (splitSlash q))))"

fun mkdirs :: "fs \<Rightarrow> string list \<Rightarrow> error + fs" where
  "mkdirs f [] = Inr f"
| "mkdirs f (d # ds) =
     (case map_of f d of
        Some (File c m) \<Rightarrow> Inl (NotADirectory d)
      | Some Dir \<Rightarrow> mkdirs f ds
      | None \<Rightarrow> mkdirs (fsPut d Dir f) ds)"

definition os_MkdirAll :: "world \<Rightarrow> string \<Rightarrow> error option \<times> world" where
  "os_MkdirAll w p =
     (case mkdirs (files w) (ancestors p) of
        Inl e \<Rightarrow> (Some e, logOp (OpMkdirAll (Clean p)) w)
      | Inr f \<Rightarrow> (None, logOp (OpMkdirAll (Clean p)) (w\<lparr>files := f\<rparr>)))"

text \<open>
  \<^verbatim>\<open>os.OpenFile(path, O_CREATE|O_WRONLY|O_APPEND, perm)\<close> when \<open>trunc\<close> is false and
  \<^verbatim>\<open>os.OpenFile(path, O_CREATE|O_WRONLY|O_TRUNC, perm)\<close> when it is true: a missing file is
  created empty with the permission bits given (before the umask), an existing one keeps
  its bits and, with \<^verbatim>\<open>O_TRUNC\<close>, loses its bytes. The directory of the path is taken to
  exist: its callers have just made it.
\<close>

definition os_OpenFile :: "world \<Rightarrow> string \<Rightarrow> bool \<Rightarrow> nat \<Rightarrow> error option \<times> world" where
  "os_OpenFile w p trunc pm =
     (case map_of (files w) (Clean p) of
        Some Dir \<Rightarrow> (Some (IsADirectory p), logOp (OpOpenFile (Clean p)) w)
      | Some (File c m) \<Rightarrow>
          (None, logOp (OpOpenFile (Clean p))
                   (w\<lparr>files := fsPut (Clean p) (File (if trunc then [] else c) m) (files w)\<rparr>))
      | None \<Rightarrow>
          (None, logOp (OpOpenFile (Clean p)) (w\<lparr>files := fsPut (Clean p) (File [] pm) (files w)\<rparr>)))"

text \<open>The bytes of the regular file at a path (none when there is no such file).\<close>

definition fileBytes :: "world \<Rightarrow> string \<Rightarrow> byte list" where
  "fileBytes w p = (case map_of (files w) (Clean p) of Some (File c m) \<Rightarrow> c | _ \<Rightarrow> [])"

definition setBytes :: "world \<Rightarrow> string \<Rightarrow> byte list \<Rightarrow> world" where
  "setBytes w p bs =
     (case map_of (files w) (Clean p) of
        Some (File c m) \<Rightarrow> w\<lparr>files := fsPut (Clean p) (File bs m) (files w)\<rparr>
      | _ \<Rightarrow> w)"

text \<open>\<^verbatim>\<open>File.Truncate(n)\<close> on an open file: cut to \<open>n\<close> bytes, or filled with zeros up to \<open>n\<close>.\<close>

definition file_Truncate :: "world \<Rightarrow> string \<Rightarrow> nat \<Rightarrow> world" where
  "file_Truncate w p n =
     logOp (OpTruncate (Clean p))
       (setBytes w p (take n (fileBytes w p) @ replicate (n - length (fileBytes w p)) 0))"

text \<open>Writing to a file opened as above puts the bytes at its end.\<close>

definition file_Write :: "world \<Rightarrow> string \<Rightarrow> byte list \<Rightarrow> world" where
  "file_Write w p bs = logOp (OpWrite (Clean p)) (setBytes w p (fileBytes w p @ bs))"

text \<open>\<^verbatim>\<open>os.WriteFile\<close>: create with the permission bits given, or truncate, then write.\<close>

definition os_WriteFile :: "world \<Rightarrow> string \<Rightarrow> byte list \<Rightarrow> nat \<Rightarrow> error option \<times> world" where
  "os_WriteFile w p bs pm =
     (case map_of (files w) (Clean p) of
        Some Dir \<Rightarrow> (Some (IsADirectory p), logOp (OpWriteFile (Clean p)) w)
      | Some (File c m) \<Rightarrow>
          (None, logOp (OpWriteFile (Clean p)) (w\<lparr>files := fsPut (Clean p) (File bs m) (files w)\<rparr>))
      | None \<Rightarrow>
          (None, logOp (OpWriteFile (Clean p)) (w\<lparr>files := fsPut (Clean p) (File bs pm) (files w)\<rparr>)))"

section \<open>The Receiver\<close>

text \<open>
  An \<^verbatim>\<open>int64\<close> is an \<open>int\<close>; \<open>i64\<close> is the wrap-around of a result that left the range.
\<close>

definition i64 :: "int \<Rightarrow> int" where
  "i64 x = (x + 2 ^ 63) mod 2 ^ 64 - 2 ^ 63"

text \<open>
  The callbacks \<^verbatim>\<open>OnStartFile\<close> and \<^verbatim>\<open>OnProgress\<close> only report and are left out;
  \<^verbatim>\<open>OnConfirmation\<close> decides, and \<open>None\<close> is the nil function. The manifest a Receiver
  holds is set by \<open>Receive\<close> and handed to \<open>receiveFile\<close> as an argument.
\<close>

record Receiver =
  DestPath :: string
  Code :: string
  FastResume :: bool
  OnConfirmation :: "(Manifest \<Rightarrow> bool) option"

subsection \<open>verifyLocalFile\<close>

text \<open>
  The loop over \<^verbatim>\<open>entry.BlockHashes\<close>: the bytes of the file still unread, the hashes
  still expected and the offset validated so far. \<^verbatim>\<open>io.ReadFull\<close> into the buffer of
  \<open>bs\<close> bytes ends the loop at end of file, and after a short last block, which counts
  when its hash matches.
\<close>

fun verifyBlocks :: "Libs \<Rightarrow> nat \<Rightarrow> byte list \<Rightarrow> string list \<Rightarrow> int \<Rightarrow> int" where
  "verifyBlocks L bs unread [] validated = validated"
| "verifyBlocks L bs unread (expectedHash # hs) validated =
     (if unread = [] then validated
      else if length unread < bs then
        (if hexEncode (blake3Sum256 L unread) = expectedHash
         then validated + int (length unread) else validated)
      else if hexEncode (blake3Sum256 L (take bs unread)) = expectedHash
        then verifyBlocks L bs (drop bs unread) hs (validated + int bs)
      else validated)"

text \<open>
  The result is the pair the function returns. \<^verbatim>\<open>make([]byte, blockSize)\<close> panics for
  a negative size: the panic is the error \<open>Panic\<close>, which no caller may drop. Reading a
  directory fails, which ends the loop before the first block.
\<close>

definition verifyLocalFile ::
  "Libs \<Rightarrow> Receiver \<Rightarrow> world \<Rightarrow> string \<Rightarrow> FileEntry \<Rightarrow> (int \<times> error option) \<times> world" where
  "verifyLocalFile L r w path entry =
     (case os_Stat w path of
        (Inl e, w1) \<Rightarrow> ((0, Some e), w1)
      | (Inr info, w1) \<Rightarrow>
          if FastResume r then
            (if size info > Size entry then ((0, None), w1) else ((size info, None), w1))
          else if BlockHashes entry = [] then
            (if size info > Size entry then ((0, None), w1) else ((size info, None), w1))
          else
            (let blockSize = (if BlockSize entry = 0 then LegacyBlockSize else BlockSize entry) in
             case os_Open w1 path of
               (Inl e, w2) \<Rightarrow> ((0, Some e), w2)
             | (Inr n, w2) \<Rightarrow>
                 if blockSize < 0 then ((0, Some (Panic ''makeslice: len out of range'')), w2)
                 else (case n of
                         Dir \<Rightarrow> ((0, None), w2)
                       | File c m \<Rightarrow>
                           ((verifyBlocks L (nat blockSize) c (BlockHashes entry) 0, None), w2))))"

subsection \<open>receiveFile\<close>

text \<open>
  The copy loop of \<open>receiveFile\<close> and of \<open>sendFile\<close>: while bytes remain to be copied,
  read at most 256 KiB of them from the source and write what was read. A read returns
  the bytes that are there, up to the number asked for, and \<^verbatim>\<open>io.EOF\<close> when there are
  none, which ends the loop. The result is what remains to be copied, the source after the
  loop and the bytes written. Writes are complete.
\<close>

function copyLoop :: "int \<Rightarrow> byte list \<Rightarrow> byte list \<Rightarrow> int \<times> byte list \<times> byte list" where
  "copyLoop remaining src written =
     (if remaining > 0 \<and> src \<noteq> [] then
        (let toRead = min (256 * 1024) remaining;
             n = min (nat toRead) (length src)
         in copyLoop (remaining - int n) (drop n src) (written @ take n src))
      else (remaining, src, written))"
  by pat_completeness auto
termination
  by (relation "measure (\<lambda>(remaining, src, written). length src)") (auto simp add: Let_def)

declare copyLoop.simps [simp del]

text \<open>
  Lines 261 to 272: with an offset, the first \<open>offset\<close> bytes of the file that is there go
  into the hasher (\<^verbatim>\<open>io.CopyN\<close> fails with \<^verbatim>\<open>io.EOF\<close> on a shorter file). The result is
  the bytes hashed.
\<close>

definition hashExisting :: "world \<Rightarrow> string \<Rightarrow> int \<Rightarrow> (error + byte list) \<times> world" where
  "hashExisting w filePath offset =
     (case os_Open w filePath of
        (Inl e, w1) \<Rightarrow> (Inl (Wrapped ''failed to open existing file for hashing'' e), w1)
      | (Inr Dir, w1) \<Rightarrow>
          (Inl (Wrapped ''failed to hash existing content'' (IsADirectory filePath)), w1)
      | (Inr (File c m), w1) \<Rightarrow>
          (if int (length c) < offset then (Inl (Wrapped ''failed to hash existing content'' EOF), w1)
           else (Inr (take (nat offset) c), w1)))"

text \<open>
  Lines 287 to 297: with an offset, a file that does not end at the offset is cut to it.
\<close>

definition truncateToOffset :: "world \<Rightarrow> string \<Rightarrow> int \<Rightarrow> world" where
  "truncateToOffset w filePath offset =
     (if offset > 0 \<and> int (length (fileBytes w filePath)) \<noteq> offset
      then file_Truncate w filePath (nat offset) else w)"

text \<open>The writes of the copy loop to the file: none when no byte was read.\<close>

definition writeReceived :: "world \<Rightarrow> string \<Rightarrow> byte list \<Rightarrow> world" where
  "writeReceived w filePath written = (if written = [] then w else file_Write w filePath written)"

text \<open>
  Lines 259 to 363, after the directory of the file has been made: hash the existing
  prefix, open the file, cut it to the offset, copy \<open>size - offset\<close> bytes from the
  stream into the file and the hasher, read the \<^verbatim>\<open>FileEnd\<close> message and compare the
  checksum.
\<close>

definition receiveFile_write ::
  "Libs \<Rightarrow> FileEntry option \<Rightarrow> FileStartMsg \<Rightarrow> string \<Rightarrow> world \<Rightarrow> byte list
     \<Rightarrow> error option \<times> byte list \<times> world" where
  "receiveFile_write L entry fileStart filePath w stream =
     (case (if fsOffset fileStart > 0 then hashExisting w filePath (fsOffset fileStart)
            else (Inr [], w)) of
        (Inl e, w1) \<Rightarrow> (Some e, stream, w1)
      | (Inr hashed, w1) \<Rightarrow>
          (case os_OpenFile w1 filePath (\<not> fsOffset fileStart > 0) 420 of
             (Some e, w2) \<Rightarrow> (Some (Wrapped ''failed to open file'' e), stream, w2)
           | (None, w2) \<Rightarrow>
               (let w3 = truncateToOffset w2 filePath (fsOffset fileStart);
                    total = i64 (fsSize fileStart - fsOffset fileStart)
                in case copyLoop total stream [] of
                     (remaining, stream1, written) \<Rightarrow>
                       (let w4 = writeReceived w3 filePath written in
                        if remaining \<noteq> 0 then
                          (Some (ShortData (i64 (total - remaining)) total), stream1, w4)
                        else
                          (case ReadMessage L stream1 of
                             (Inl e, stream2, bufs) \<Rightarrow>
                               (Some (Wrapped ''failed to read end message'' e), stream2, w4)
                           | (Inr endMsg, stream2, bufs) \<Rightarrow>
                               if Type endMsg \<noteq> MsgFileEnd
                               then (Some (ExpectedFileEnd (Type endMsg)), stream2, w4)
                               else
                                 (case entry of
                                    None \<Rightarrow> (None, stream2, w4)
                                  | Some en \<Rightarrow>
                                      (let actualHash =
                                             hexEncode (blake3Sum256 L (hashed @ written)) in
                                       if Checksum en \<noteq> [] \<and> actualHash \<noteq> Checksum en
                                       then (Some (ChecksumMismatch (fsPath fileStart)
                                                     (Checksum en) actualHash), stream2, w4)
                                       else (None, stream2, w4))))))))"

text \<open>
  The result of \<open>receiveFile\<close> is the error returned (\<open>None\<close> is nil), the stream after the
  call and the world after it.
\<close>

definition receiveFile ::
  "Libs \<Rightarrow> Manifest \<Rightarrow> world \<Rightarrow> byte list \<Rightarrow> Message \<Rightarrow> string
     \<Rightarrow> error option \<times> byte list \<times> world" where
  "receiveFile L man w stream startMsg destFolder =
     (case unmarshalFileStart L (Payload startMsg) of
        None \<Rightarrow> (Some JSONError, stream, w)
      | Some fileStart \<Rightarrow>
          (let entry = find (\<lambda>e. Path e = fsPath fileStart) (Files man) in
           if fsOffset fileStart = fsSize fileStart then
             (case ReadMessage L stream of
                (Inl e, stream1, bufs) \<Rightarrow>
                  (Some (Wrapped ''failed to read end message'' e), stream1, w)
              | (Inr endMsg, stream1, bufs) \<Rightarrow>
                  if Type endMsg \<noteq> MsgFileEnd
                  then (Some (ExpectedFileEnd (Type endMsg)), stream1, w)
                  else (None, stream1, w))
           else
             (let filePath = Join destFolder (fsPath fileStart);
                  cleanDest = Clean destFolder;
                  cleanPath = Clean filePath
              in if \<not> HasPrefix cleanPath (cleanDest @ ''/'')
                 then (Some (ZipSlip (fsPath fileStart)), stream, w)
                 else
                   (case os_MkdirAll w (Dir_of filePath) of
                      (Some e, w1) \<Rightarrow>
                        (Some (Wrapped ''failed to create directory'' e), stream, w1)
                    | (None, w1) \<Rightarrow> receiveFile_write L entry fileStart filePath w1 stream))))"

subsection \<open>Receive\<close>

text \<open>
  Lines 97 to 107: the loop over \<^verbatim>\<open>manifest.Files\<close> that checks each path and
  collects the resume offsets. \<open>resumeOffsets\<close> is a Go map: an association list with one
  pair for a key. \<open>existingSize\<close> is summed and not used.
\<close>

definition mapPut :: "string \<Rightarrow> int \<Rightarrow> offsets \<Rightarrow> offsets" where
  "mapPut k v m = (if k \<in> set (map fst m) then map (\<lambda>(q, u). if q = k then (q, v) else (q, u)) m
                   else m @ [(k, v)])"

fun verifyFiles ::
  "Libs \<Rightarrow> Receiver \<Rightarrow> string \<Rightarrow> world \<Rightarrow> FileEntry list \<Rightarrow> offsets
     \<Rightarrow> (error + offsets) \<times> world" where
  "verifyFiles L r destFolder w [] resumeOffsets = (Inr resumeOffsets, w)"
| "verifyFiles L r destFolder w (file # rest) resumeOffsets =
     (let localPath = Join destFolder (Path file) in
      if \<not> HasPrefix localPath (Clean destFolder) then (Inl (InvalidFilePath (Path file)), w)
      else
        (case verifyLocalFile L r w localPath file of
           ((offset, Some (Panic s)), w1) \<Rightarrow> (Inl (Panic s), w1)
         | ((offset, err), w1) \<Rightarrow>
             verifyFiles L r destFolder w1 rest
               (if offset > 0 then mapPut (Path file) offset resumeOffsets else resumeOffsets)))"

text \<open>
  Lines 127 to 151: the loop over the messages of the stream. The result is the error
  returned, the stream after the loop and the world after it.
\<close>

function receiveMessages ::
  "Libs \<Rightarrow> Manifest \<Rightarrow> string \<Rightarrow> world \<Rightarrow> byte list
     \<Rightarrow> error option \<times> byte list \<times> world" where
  "receiveMessages L man destFolder w stream =
     (case ReadMessage L stream of
        (Inl e, stream1, bufs) \<Rightarrow> (Some (Wrapped ''failed to read message'' e), stream1, w)
      | (Inr msg, stream1, bufs) \<Rightarrow>
          if Type msg = MsgFileStart then
            (case receiveFile L man w stream1 msg destFolder of
               (Some e, stream2, w1) \<Rightarrow> (Some e, stream2, w1)
             | (None, stream2, w1) \<Rightarrow> receiveMessages L man destFolder w1 stream2)
          else if Type msg = MsgComplete then (None, stream1, w)
          else if Type msg = MsgError then (Some (SenderError (Payload msg)), stream1, w)
          else (Some (UnexpectedMessageType (Type msg)), stream1, w))"
  by pat_completeness auto
termination
proof (relation "measure (\<lambda>(L, man, destFolder, w, stream). length stream)")
  show "wf (measure (\<lambda>(L, man, destFolder, w, stream). length stream))"
    by simp
next
  fix L :: Libs and man :: Manifest and destFolder :: string and w :: world
    and stream :: "byte list" and x1 x2 msg y stream1 bufs x1a x2a stream2 w1
  assume rd: "(x1, x2) = ReadMessage L stream" "x1 = Inr msg" "(stream1, bufs) = x2"
    and rf: "(x1a, x2a) = receiveFile L man w stream1 msg destFolder" "x1a = None"
      "(stream2, w1) = x2a"
  have full: "\<And>r n d r'. ReadFull r n = (Inr d, r') \<Longrightarrow> length r' \<le> length r"
    by (auto simp add: ReadFull_def split: if_splits)
  have rm: "\<And>s m s' b. ReadMessage L s = (Inr m, s', b) \<Longrightarrow> length s' + 4 \<le> length s"
    by (auto simp add: ReadMessage_def ReadFull_def Let_def
        split: if_splits option.splits prod.splits sum.splits)
  have cl: "\<And>n s acc n' s' acc'. copyLoop n s acc = (n', s', acc') \<Longrightarrow> length s' \<le> length s"
  proof -
    fix n s acc n' s' acc'
    show "copyLoop n s acc = (n', s', acc') \<Longrightarrow> length s' \<le> length s"
    proof (induction n s acc rule: copyLoop.induct)
      case (1 remaining src written)
      show ?case
      proof (cases "remaining > 0 \<and> src \<noteq> []")
        case True
        with 1 show ?thesis
          by (subst (asm) (2) copyLoop.simps) (fastforce simp add: Let_def)
      next
        case False
        with 1 show ?thesis
          by (subst (asm) copyLoop.simps) auto
      qed
    qed
  qed
  have s1: "length stream1 + 4 \<le> length stream"
    using rd rm [of stream msg stream1 bufs] by (metis)
  have "receiveFile L man w stream1 msg destFolder = (None, stream2, w1)"
    using rf by simp
  then have "length stream2 \<le> length stream1"
    by (auto simp add: receiveFile_def receiveFile_write_def Let_def
        split: if_splits option.splits prod.splits sum.splits dest!: rm cl)
  with s1 show "((L, man, destFolder, w1, stream2), (L, man, destFolder, w, stream))
      \<in> measure (\<lambda>(L, man, destFolder, w, stream). length stream)"
    by simp
qed

declare receiveMessages.simps [simp del]

text \<open>
  Lines 66 to 152: what \<open>Receive\<close> does on the data stream once the handshake is
  acknowledged. The result is the error returned, the bytes written to the data stream, the
  stream after the call and the world after it.
\<close>

definition Receive_data ::
  "Libs \<Rightarrow> Receiver \<Rightarrow> world \<Rightarrow> byte list \<Rightarrow> error option \<times> byte list \<times> byte list \<times> world" where
  "Receive_data L r w dataStream =
     (case ReadMessage L dataStream of
        (Inl e, stream1, bufs) \<Rightarrow> (Some (Wrapped ''failed to read manifest'' e), [], stream1, w)
      | (Inr msg, stream1, bufs) \<Rightarrow>
          if Type msg = MsgError then (Some (HandshakeRejected (Payload msg)), [], stream1, w)
          else if Type msg \<noteq> MsgManifest then (Some (ExpectedManifest (Type msg)), [], stream1, w)
          else
            (case unmarshalManifest L (Payload msg) of
               None \<Rightarrow> (Some JSONError, [], stream1, w)
             | Some manifest \<Rightarrow>
                 if (case OnConfirmation r of None \<Rightarrow> False | Some ask \<Rightarrow> \<not> ask manifest) then
                   (Some RejectedByUser,
                    WriteMessage L [] \<lparr>Type = MsgError,
                                        Payload = bytes_of ''Transfer rejected by receiver''\<rparr>,
                    stream1, w)
                 else
                   (let destFolder = Join (DestPath r) (FolderName manifest) in
                    if \<not> HasPrefix destFolder (Clean (DestPath r))
                    then (Some (InvalidFolderName (FolderName manifest)), [], stream1, w)
                    else
                      (case verifyFiles L r destFolder w (Files manifest) [] of
                         (Inl e, w1) \<Rightarrow> (Some e, [], stream1, w1)
                       | (Inr resumeOffsets, w1) \<Rightarrow>
                           (case os_MkdirAll w1 destFolder of
                              (Some e, w2) \<Rightarrow>
                                (Some (Wrapped ''failed to create destination folder'' e), [],
                                 stream1, w2)
                            | (None, w2) \<Rightarrow>
                                (let out = WriteMessage L []
                                             \<lparr>Type = MsgResume,
                                              Payload = marshalResume L resumeOffsets\<rparr>
                                 in case receiveMessages L manifest destFolder w2 stream1 of
                                      (res, stream2, w3) \<Rightarrow> (res, out, stream2, w3)))))))"

text \<open>
  \<open>Receive\<close>: the handshake, then the rest on the data stream, which is the stream itself
  or, when the acknowledgement asks for compression, the gzip reader and writer on it.
  The result is the error returned, the bytes written to the stream and the world after
  the call.
\<close>

definition Receive :: "Libs \<Rightarrow> Receiver \<Rightarrow> world \<Rightarrow> byte list \<Rightarrow> error option \<times> byte list \<times> world" where
  "Receive L r w stream =
     (let hello = WriteMessage L [] \<lparr>Type = MsgHandshake, Payload = bytes_of (Code r)\<rparr> in
      case ReadMessage L stream of
        (Inl e, stream1, bufs) \<Rightarrow>
          (Some (Wrapped ''failed to read handshake response'' e), hello, w)
      | (Inr msg, stream1, bufs) \<Rightarrow>
          if Type msg = MsgError then (Some (HandshakeRejected (Payload msg)), hello, w)
          else if Type msg \<noteq> MsgHandshakeAck then (Some (ExpectedHandshakeAck (Type msg)), hello, w)
          else
            (case unmarshalHandshakeAck L (Payload msg) of
               None \<Rightarrow> (Some (Wrapped ''invalid handshake ack'' JSONError), hello, w)
             | Some compress \<Rightarrow>
                 if compress then
                   (case gzipRead L stream1 of
                      None \<Rightarrow>
                        (Some (Wrapped ''failed to initialize compression'' GzipError),
                         hello @ gzipWrite L [], w)
                    | Some dataStream \<Rightarrow>
                        (case Receive_data L r w dataStream of
                           (res, out, rest, w1) \<Rightarrow> (res, hello @ gzipWrite L out, w1)))
                 else
                   (case Receive_data L r w stream1 of
                      (res, out, rest, w1) \<Rightarrow> (res, hello @ out, w1))))"

section \<open>The Sender\<close>


subsection \<open>Handshake\<close>


subsection \<open>sendFile and Send\<close>

text \<open>
  The writer is the list of bytes written so far (the buffered writer is flushed when
  \<open>Send\<close> returns). The result is the error returned and the writer after the call.
\<close>






section \<open>The manifest builder\<close>

text \<open>
  \<open>calculateHashAndBlocks\<close> reads the file through a buffer of \<open>BlockSize\<close> bytes; every
  read of a regular file fills the buffer until the bytes run out.
\<close>

function blocksOf :: "nat \<Rightarrow> byte list \<Rightarrow> byte list list" where
  "blocksOf n bs = (if n = 0 \<or> bs = [] then [] else take n bs # blocksOf n (drop n bs))"
  by pat_completeness auto
termination
  by (relation "measure (\<lambda>(n, bs). length bs)") auto

declare blocksOf.simps [simp del]

definition calculateHashAndBlocks :: "Libs \<Rightarrow> world \<Rightarrow> string \<Rightarrow> (error + string \<times> string list) \<times> world" where
  "calculateHashAndBlocks L w path =
     (case os_Open w path of
        (Inl e, w1) \<Rightarrow> (Inl e, w1)
      | (Inr Dir, w1) \<Rightarrow> (Inl (IsADirectory path), w1)
      | (Inr (File c m), w1) \<Rightarrow>
          (Inr (hexEncode (blake3Sum256 L c),
                map (\<lambda>b. hexEncode (blake3Sum256 L b)) (blocksOf (nat BlockSize_const) c)), w1))"

text \<open>
  \<^verbatim>\<open>filepath.Walk\<close> from a directory: the regular files below it, without the cache file,
  each with its path relative to the directory. The files come in the order of the disk
  list; in the source the workers deliver their entries in any order.
\<close>

definition cacheName :: string where
  "cacheName = ''.2c1f_manifest.json''"

definition below :: "string \<Rightarrow> string" where
  "below root = (let c = Clean root in if c = ''/'' then c else if c = ''.'' then [] else c @ ''/'')"

definition walkFiles :: "fs \<Rightarrow> string \<Rightarrow> (string \<times> string) list" where
  "walkFiles f root =
     map (\<lambda>(k, n). (k, drop (length (below root)) k))
       (filter (\<lambda>(k, n). n \<noteq> Dir \<and> HasPrefix k (below root) \<and> length (below root) < length k
                          \<and> (below root = [] \<longrightarrow> hd k \<noteq> CHR ''/'' \<and> \<not> HasPrefix k ''..'')
                          \<and> Base k \<noteq> cacheName) f)"

text \<open>The work of the workers, one file after the other; the first error ends it.\<close>

fun hashFiles :: "Libs \<Rightarrow> bool \<Rightarrow> world \<Rightarrow> (string \<times> string) list \<Rightarrow> (error + FileEntry list) \<times> world" where
  "hashFiles L skipHash w [] = (Inr [], w)"
| "hashFiles L skipHash w ((walkPath, relPath) # rest) =
     (case os_Stat w walkPath of
        (Inl e, w1) \<Rightarrow> (Inl e, w1)
      | (Inr info, w1) \<Rightarrow>
          (case (if skipHash then (Inr ([], []), w1) else calculateHashAndBlocks L w1 walkPath) of
             (Inl e, w2) \<Rightarrow> (Inl e, w2)
           | (Inr (hash, blockHashes), w2) \<Rightarrow>
               (case hashFiles L skipHash w2 rest of
                  (Inl e, w3) \<Rightarrow> (Inl e, w3)
                | (Inr entries, w3) \<Rightarrow>
                    (Inr (\<lparr>Path = relPath, Size = size info, Mode = mode info, Checksum = hash,
                           BlockHashes = blockHashes, BlockSize = BlockSize_const\<rparr> # entries), w3))))"

text \<open>Lines 218 to 226: the cached manifest, when it is asked for, is there and parses.\<close>

definition loadCache :: "Libs \<Rightarrow> world \<Rightarrow> string \<Rightarrow> Manifest option \<times> world" where
  "loadCache L w manifestFile =
     (case os_ReadFile w manifestFile of
        (Inl e, w1) \<Rightarrow> (None, w1)
      | (Inr data, w1) \<Rightarrow> (unmarshalManifest L data, w1))"

definition BuildManifest :: "Libs \<Rightarrow> string \<Rightarrow> bool \<Rightarrow> bool \<Rightarrow> world \<Rightarrow> (error + Manifest) \<times> world" where
  "BuildManifest L path cache skipHash w =
     (case os_Stat w path of
        (Inl e, w1) \<Rightarrow> (Inl (Wrapped ''cannot access path'' e), w1)
      | (Inr info, w1) \<Rightarrow>
          (let manifestFile = Join path ''.2c1f_manifest.json'' in
           case (if cache \<and> isDir info \<and> \<not> skipHash then loadCache L w1 manifestFile
                 else (None, w1)) of
             (Some cachedManifest, w2) \<Rightarrow> (Inr cachedManifest, w2)
           | (None, w2) \<Rightarrow>
               if \<not> isDir info then
                 (case (if skipHash then (Inr ([], []), w2) else calculateHashAndBlocks L w2 path) of
                    (Inl e, w3) \<Rightarrow> (Inl (Wrapped ''failed to calculate hash'' e), w3)
                  | (Inr (hash, blockHashes), w3) \<Rightarrow>
                      (Inr \<lparr>FolderName = Base path, TotalSize = size info,
                            Files = [\<lparr>Path = Base path, Size = size info, Mode = mode info,
                                      Checksum = hash, BlockHashes = blockHashes,
                                      BlockSize = BlockSize_const\<rparr>]\<rparr>, w3))
               else
                 (case hashFiles L skipHash w2 (walkFiles (files w2) path) of
                    (Inl e, w3) \<Rightarrow> (Inl e, w3)
                  | (Inr entries, w3) \<Rightarrow>
                      (let manifest = \<lparr>FolderName = Base path,
                                        TotalSize = sum_list (map Size entries),
                                        Files = entries\<rparr>
                       in if cache \<and> isDir info \<and> \<not> skipHash
                          then (Inr manifest,
                                snd (os_WriteFile w3 manifestFile
                                       (marshalIndentManifest L manifest) 384))
                          else (Inr manifest, w3)))))"

section \<open>Rendezvous (package p2p)\<close>

text \<open>
  \<^verbatim>\<open>crypto/sha256\<close>, after FIPS 180-4: the message is padded with the bit 1, zeros and
  its length in bits as 64 bits, to a multiple of 64 bytes, and each block of 64 bytes is
  compressed into the state of eight 32-bit words.
\<close>

type_synonym u32 = "32 word"

text \<open>
  The round constants and the initial state of the standard (the first 32 bits of the
  fractional parts of the cube roots of the first 64 primes, and of the square roots of the
  first 8), written in decimal.
\<close>

definition sha256_K :: "u32 list" where
  "sha256_K = [
   1116352408, 1899447441, 3049323471, 3921009573, 961987163, 1508970993, 2453635748, 2870763221,
   3624381080, 310598401, 607225278, 1426881987, 1925078388, 2162078206, 2614888103, 3248222580,
   3835390401, 4022224774, 264347078, 604807628, 770255983, 1249150122, 1555081692, 1996064986,
   2554220882, 2821834349, 2952996808, 3210313671, 3336571891, 3584528711, 113926993, 338241895,
   666307205, 773529912, 1294757372, 1396182291, 1695183700, 1986661051, 2177026350, 2456956037,
   2730485921, 2820302411, 3259730800, 3345764771, 3516065817, 3600352804, 4094571909, 275423344,
   430227734, 506948616, 659060556, 883997877, 958139571, 1322822218, 1537002063, 1747873779,
   1955562222, 2024104815, 2227730452, 2361852424, 2428436474, 2756734187, 3204031479, 3329325298]"

definition sha256_init :: "u32 \<times> u32 \<times> u32 \<times> u32 \<times> u32 \<times> u32 \<times> u32 \<times> u32" where
  "sha256_init = (1779033703, 3144134277, 1013904242, 2773480762,
                  1359893119, 2600822924, 528734635, 1541459225)"

definition rotr :: "nat \<Rightarrow> u32 \<Rightarrow> u32" where
  "rotr n x = (drop_bit n x) OR (push_bit (32 - n) x)"

definition ssig0 :: "u32 \<Rightarrow> u32" where "ssig0 x = rotr 7 x XOR rotr 18 x XOR drop_bit 3 x"
definition ssig1 :: "u32 \<Rightarrow> u32" where "ssig1 x = rotr 17 x XOR rotr 19 x XOR drop_bit 10 x"
definition bsig0 :: "u32 \<Rightarrow> u32" where "bsig0 x = rotr 2 x XOR rotr 13 x XOR rotr 22 x"
definition bsig1 :: "u32 \<Rightarrow> u32" where "bsig1 x = rotr 6 x XOR rotr 11 x XOR rotr 25 x"
definition ch :: "u32 \<Rightarrow> u32 \<Rightarrow> u32 \<Rightarrow> u32" where "ch x y z = (x AND y) XOR (NOT x AND z)"
definition maj :: "u32 \<Rightarrow> u32 \<Rightarrow> u32 \<Rightarrow> u32" where "maj x y z = (x AND y) XOR (x AND z) XOR (y AND z)"

fun be32 :: "byte list \<Rightarrow> u32" where
  "be32 [a, b, c, d] = push_bit 24 (ucast a) OR push_bit 16 (ucast b) OR push_bit 8 (ucast c) OR ucast d"
| "be32 _ = 0"

fun words_of :: "nat \<Rightarrow> byte list \<Rightarrow> u32 list" where
  "words_of 0 bs = []"
| "words_of (Suc n) bs = be32 (take 4 bs) # words_of n (drop 4 bs)"

text \<open>
  The message schedule, latest word first: the head of \<open>ws\<close> is \<open>W(t - 1)\<close>, so that
  \<open>W(t - 2)\<close>, \<open>W(t - 7)\<close>, \<open>W(t - 15)\<close> and \<open>W(t - 16)\<close> are at 1, 6, 14 and 15.
\<close>
fun schedule :: "nat \<Rightarrow> u32 list \<Rightarrow> u32 list" where
  "schedule 0 ws = ws"
| "schedule (Suc n) ws =
     schedule n ((ssig1 (ws ! 1) + ws ! 6 + ssig0 (ws ! 14) + ws ! 15) # ws)"

type_synonym sha_state = "u32 \<times> u32 \<times> u32 \<times> u32 \<times> u32 \<times> u32 \<times> u32 \<times> u32"

fun round_step :: "sha_state \<Rightarrow> u32 \<times> u32 \<Rightarrow> sha_state" where
  "round_step (a, b, c, d, e, f, g, h) (k, w) =
     (let t1 = h + bsig1 e + ch e f g + k + w;
          t2 = bsig0 a + maj a b c
      in (t1 + t2, a, b, c, d + t1, e, f, g))"

fun add_state :: "sha_state \<Rightarrow> sha_state \<Rightarrow> sha_state" where
  "add_state (a, b, c, d, e, f, g, h) (a', b', c', d', e', f', g', h') =
     (a + a', b + b', c + c', d + d', e + e', f + f', g + g', h + h')"

definition compress :: "sha_state \<Rightarrow> byte list \<Rightarrow> sha_state" where
  "compress s blk =
     add_state s (foldl round_step s (zip sha256_K (rev (schedule 48 (rev (words_of 16 blk))))))"

definition be64 :: "64 word \<Rightarrow> byte list" where
  "be64 w = [ucast (drop_bit 56 w), ucast (drop_bit 48 w), ucast (drop_bit 40 w), ucast (drop_bit 32 w),
             ucast (drop_bit 24 w), ucast (drop_bit 16 w), ucast (drop_bit 8 w), ucast w]"

definition pad :: "byte list \<Rightarrow> byte list" where
  "pad m = m @ [0x80] @ replicate ((119 - length m mod 64) mod 64) 0 @ be64 (8 * of_nat (length m))"

fun blocks :: "nat \<Rightarrow> sha_state \<Rightarrow> byte list \<Rightarrow> sha_state" where
  "blocks 0 s bs = s"
| "blocks (Suc n) s bs = blocks n (compress s (take 64 bs)) (drop 64 bs)"

definition word_bytes :: "u32 \<Rightarrow> byte list" where
  "word_bytes w = [ucast (drop_bit 24 w), ucast (drop_bit 16 w), ucast (drop_bit 8 w), ucast w]"

fun state_bytes :: "sha_state \<Rightarrow> byte list" where
  "state_bytes (a, b, c, d, e, f, g, h) = concat (map word_bytes [a, b, c, d, e, f, g, h])"

definition sha256 :: "byte list \<Rightarrow> byte list" where
  "sha256 m = (let p = pad m in state_bytes (blocks (length p div 64) sha256_init p))"

text \<open>\<^verbatim>\<open>fmt.Sprintf("%s/%x", RendezvousNS, hash[:8])\<close>.\<close>

definition RendezvousNS :: string where
  "RendezvousNS = ''2c1f-rendezvous''"

definition codeToRendezvous :: "string \<Rightarrow> string" where
  "codeToRendezvous code =
     (let hash = sha256 (bytes_of code) in RendezvousNS @ ''/'' @ hexEncode (take 8 hash))"

section \<open>A concrete instance of the libraries\<close>

text \<open>
  To run the transfer functions on concrete streams the library parameter needs a value.
  \<open>exampleLibs\<close> marshals as \<^verbatim>\<open>encoding/json\<close> does for texts that need no escaping,
  and unmarshals by finding, in a list of known values, the one that marshals to the text.
  Its digest is the input itself and its gzip layer changes nothing: no property below
  depends on what these two compute.
\<close>

definition decimalInt :: "int \<Rightarrow> string" where
  "decimalInt i = (if i < 0 then CHR ''-'' # decimal (nat (- i)) else decimal (nat i))"

definition quoted :: "string \<Rightarrow> string" where
  "quoted s = CHR 0x22 # s @ [CHR 0x22]"

fun commaSep :: "string list \<Rightarrow> string" where
  "commaSep [] = []"
| "commaSep [x] = x"
| "commaSep (x # y # ys) = x @ '','' @ commaSep (y # ys)"

definition jsonFileStart :: "FileStartMsg \<Rightarrow> byte list" where
  \<open>jsonFileStart m =
     bytes_of (''{"path":'' @ quoted (fsPath m) @ '',"size":'' @ decimalInt (fsSize m)
               @ (if fsOffset m = 0 then [] else '',"offset":'' @ decimalInt (fsOffset m))
               @ ''}'')\<close>

definition jsonFileEntry :: "FileEntry \<Rightarrow> string" where
  \<open>jsonFileEntry e =
     ''{"path":'' @ quoted (Path e) @ '',"size":'' @ decimalInt (Size e)
     @ '',"mode":'' @ decimal (Mode e) @ '',"checksum":'' @ quoted (Checksum e)
     @ (if BlockHashes e = [] then []
        else '',"block_hashes":['' @ commaSep (map quoted (BlockHashes e)) @ '']'')
     @ (if BlockSize e = 0 then [] else '',"block_size":'' @ decimalInt (BlockSize e))
     @ ''}''\<close>

definition jsonManifest :: "Manifest \<Rightarrow> byte list" where
  \<open>jsonManifest m =
     bytes_of (''{"folder_name":'' @ quoted (FolderName m) @ '',"total_size":''
               @ decimalInt (TotalSize m) @ '',"files":[''
               @ commaSep (map jsonFileEntry (Files m)) @ '']}'')\<close>

definition jsonResume :: "offsets \<Rightarrow> byte list" where
  \<open>jsonResume m =
     bytes_of (''{"files":{''
               @ commaSep (map (\<lambda>(k, v). quoted k @ '':'' @ decimalInt v) m) @ ''}}'')\<close>

definition jsonHandshakeAck :: "bool \<Rightarrow> byte list" where
  \<open>jsonHandshakeAck c = bytes_of (if c then ''{"compress":true}'' else ''{"compress":false}'')\<close>

definition jsonHandshake :: "string \<Rightarrow> byte list" where
  \<open>jsonHandshake code = bytes_of (''{"code":'' @ quoted code @ ''}'')\<close>

definition decodeAmong :: "('a \<Rightarrow> byte list) \<Rightarrow> 'a list \<Rightarrow> byte list \<Rightarrow> 'a option" where
  "decodeAmong enc known bs = find (\<lambda>x. enc x = bs) known"

definition evilEntry :: FileEntry where
  "evilEntry = \<lparr>Path = ''../foo-evil/x'', Size = 3, Mode = 420, Checksum = [],
                BlockHashes = [''010203''], BlockSize = 4\<rparr>"

definition evilManifest :: Manifest where
  "evilManifest = \<lparr>FolderName = ''foo'', TotalSize = 3, Files = [evilEntry]\<rparr>"

definition noteEntry :: FileEntry where
  "noteEntry = \<lparr>Path = ''a.txt'', Size = 3, Mode = 420, Checksum = ''070809'',
                BlockHashes = [''070809''], BlockSize = 4\<rparr>"

definition noteManifest :: Manifest where
  "noteManifest = \<lparr>FolderName = ''foo'', TotalSize = 3, Files = [noteEntry]\<rparr>"

definition siblingManifest :: Manifest where
  "siblingManifest =
     \<lparr>FolderName = ''../d-evil'', TotalSize = 3,
      Files = [\<lparr>Path = ''x'', Size = 3, Mode = 420, Checksum = [], BlockHashes = [],
                BlockSize = 4\<rparr>]\<rparr>"

definition exampleLibs :: Libs where
  "exampleLibs =
     \<lparr>marshalMessage = jsonMarshalMessage,
      unmarshalMessage = jsonUnmarshalMessage,
      unmarshalHandshake = decodeAmong jsonHandshake [''123-456'', ''000-000''],
      marshalHandshakeAck = jsonHandshakeAck,
      unmarshalHandshakeAck = decodeAmong jsonHandshakeAck [False, True],
      marshalManifest = jsonManifest,
      marshalIndentManifest = jsonManifest,
      unmarshalManifest = decodeAmong jsonManifest [evilManifest, noteManifest, siblingManifest],
      marshalResume = jsonResume,
      unmarshalResume = decodeAmong jsonResume [[], [(''a.txt'', 2)], [(''a.txt'', - 5)]],
      marshalFileStart = jsonFileStart,
      unmarshalFileStart = decodeAmong jsonFileStart
        [\<lparr>fsPath = ''../foo-evil/x'', fsSize = 3, fsOffset = 0\<rparr>,
         \<lparr>fsPath = ''a.txt'', fsSize = 3, fsOffset = 0\<rparr>,
         \<lparr>fsPath = ''a.txt'', fsSize = 3, fsOffset = 3\<rparr>,
         \<lparr>fsPath = ''ghost.txt'', fsSize = 3, fsOffset = 0\<rparr>,
         \<lparr>fsPath = ''../../etc/x'', fsSize = 3, fsOffset = 3\<rparr>,
         \<lparr>fsPath = ''x'', fsSize = 3, fsOffset = 0\<rparr>],
      blake3Sum256 = (\<lambda>bs. bs),
      gzipWrite = (\<lambda>bs. bs),
      gzipRead = Some\<rparr>"


text \<open>
  Two runs of \<open>Receive\<close> into the directory \<^verbatim>\<open>/d\<close>. In the first the manifest names the
  folder \<^verbatim>\<open>foo\<close> and the file \<^verbatim>\<open>../foo-evil/x\<close>, and the disk has a file at
  \<^verbatim>\<open>/d/foo-evil/x\<close>; in the second the manifest names the folder \<^verbatim>\<open>../d-evil\<close> and
  the file \<^verbatim>\<open>x\<close>. The stream holds what a sender writes: the acknowledgement, the
  manifest, and the file from offset 0.
\<close>

definition frame :: "Message \<Rightarrow> byte list" where
  "frame m = WriteMessage exampleLibs [] m"

definition plainReceiver :: Receiver where
  "plainReceiver = \<lparr>DestPath = ''/d'', Code = ''123-456'', FastResume = False,
                     OnConfirmation = None\<rparr>"

definition evilWorld :: world where
  "evilWorld = \<lparr>files = [(''/d'', Dir), (''/d/foo-evil'', Dir),
                           (''/d/foo-evil/x'', File [1, 2, 3] 420)], ops = []\<rparr>"

definition evilStream :: "byte list" where
  "evilStream =
     frame \<lparr>Type = MsgHandshakeAck, Payload = jsonHandshakeAck False\<rparr>
     @ frame \<lparr>Type = MsgManifest, Payload = jsonManifest evilManifest\<rparr>
     @ frame \<lparr>Type = MsgFileStart,
              Payload = jsonFileStart \<lparr>fsPath = ''../foo-evil/x'', fsSize = 3, fsOffset = 0\<rparr>\<rparr>
     @ [7, 8, 9]
     @ frame \<lparr>Type = MsgFileEnd, Payload = []\<rparr>
     @ frame \<lparr>Type = MsgComplete, Payload = []\<rparr>"

definition siblingStream :: "byte list" where
  "siblingStream =
     frame \<lparr>Type = MsgHandshakeAck, Payload = jsonHandshakeAck False\<rparr>
     @ frame \<lparr>Type = MsgManifest, Payload = jsonManifest siblingManifest\<rparr>
     @ frame \<lparr>Type = MsgFileStart,
              Payload = jsonFileStart \<lparr>fsPath = ''x'', fsSize = 3, fsOffset = 0\<rparr>\<rparr>
     @ [7, 8, 9]
     @ frame \<lparr>Type = MsgFileEnd, Payload = []\<rparr>
     @ frame \<lparr>Type = MsgComplete, Payload = []\<rparr>"



text \<open>
  Two directories \<^verbatim>\<open>/data\<close>: one holds a cache under the name the code uses, the other
  under the name \<^verbatim>\<open>.manifest-cache\<close>; both caches are the JSON of \<open>noteManifest\<close>.
  \<open>freshManifest\<close> is the manifest of the second directory, whose only file is that
  cache.
\<close>

definition cachedWorld :: world where
  "cachedWorld = \<lparr>files = [(''/data'', Dir),
                             (''/data/.2c1f_manifest.json'', File (jsonManifest noteManifest) 384)],
                   ops = []\<rparr>"

definition otherCacheWorld :: world where
  "otherCacheWorld = \<lparr>files = [(''/data'', Dir),
                                 (''/data/.manifest-cache'', File (jsonManifest noteManifest) 384)],
                       ops = []\<rparr>"

definition freshManifest :: Manifest where
  "freshManifest =
     \<lparr>FolderName = ''data'', TotalSize = int (length (jsonManifest noteManifest)),
      Files = [\<lparr>Path = ''.manifest-cache'', Size = int (length (jsonManifest noteManifest)),
                Mode = 384, Checksum = hexEncode (jsonManifest noteManifest),
                BlockHashes = [hexEncode (jsonManifest noteManifest)],
                BlockSize = BlockSize_const\<rparr>]\<rparr>"

section \<open>Properties\<close>

section \<open>Framing lemmas\<close>

lemmas Msg_defs = MsgManifest_def MsgResume_def MsgFileStart_def MsgFileEnd_def
  MsgComplete_def MsgError_def MsgHandshake_def MsgHandshakeAck_def

lemma uint32be_lengthBytes: "uint32be (lengthBytes l) = l"
proof (rule bit_word_eqI)
  fix n :: nat
  assume n: "n < LENGTH(32)"
  consider "n < 8" | "8 \<le> n" "n < 16" | "16 \<le> n" "n < 24" | "24 \<le> n"
    by linarith
  then show "bit (uint32be (lengthBytes l)) n = bit l n"
  proof cases
    case 1
    then show ?thesis
      unfolding uint32be_def lengthBytes_def by (auto simp add: bit_simps)
  next
    case 2
    then show ?thesis
      unfolding uint32be_def lengthBytes_def by (auto simp add: bit_simps)
  next
    case 3
    then show ?thesis
      unfolding uint32be_def lengthBytes_def by (auto simp add: bit_simps)
  next
    case 4
    then show ?thesis
      using n unfolding uint32be_def lengthBytes_def by (auto simp add: bit_simps)
  qed
qed


section \<open>The JSON text of a Message: decoding inverts encoding\<close>

lemma string_of_bytes_of [simp]: "string_of (bytes_of s) = s"
proof -
  have "char_of (unat (of_nat (of_char c) :: byte)) = c" for c :: char
  proof -
    have "(of_char c :: nat) < 256"
      by (rule nat_of_char_less_256)
    then have "unat (of_nat (of_char c) :: byte) = of_char c"
      by (simp add: unat_of_nat)
    then show ?thesis by simp
  qed
  then show ?thesis
    by (simp add: string_of_def bytes_of_def map_idI)
qed

lemma b64val_b64char: "i < 64 \<Longrightarrow> b64val (b64char i) = Some i"
  by (auto simp add: b64val_def b64char_def Let_def)

lemma of_char_b64char:
  "(of_char (b64char i) :: nat) =
     (if i < 26 then 65 + i else if i < 52 then 71 + i else if i < 62 then i - 4
      else if i = 62 then 43 else 47)"
  by (simp add: b64char_def)

lemma b64char_not_special: "b64char i \<noteq> CHR ''=''" "b64char i \<noteq> CHR 0x22"
proof -
  have "(of_char (b64char i) :: nat) \<noteq> of_char (CHR ''='')"
    "(of_char (b64char i) :: nat) \<noteq> of_char (CHR 0x22)"
    by (auto simp add: of_char_b64char)
  then show "b64char i \<noteq> CHR ''=''" "b64char i \<noteq> CHR 0x22"
    by auto
qed

lemma b64char_not_quote: "CHR 0x22 \<noteq> b64char i"
  using b64char_not_special(2) [of i] by (rule not_sym)

lemma unbase64_base64: "unbase64 (base64 bs) = Some bs"
proof (induction bs rule: base64.induct)
  case (1 a b c xs)
  have a: "unat a < 256" and b: "unat b < 256" and c: "unat c < 256"
    using unsigned_less [of a, where ?'a = nat] unsigned_less [of b, where ?'a = nat]
      unsigned_less [of c, where ?'a = nat] by simp_all
  have i: "unat a div 4 < 64" "unat a mod 4 * 16 + unat b div 16 < 64"
    "unat b mod 16 * 4 + unat c div 64 < 64" "unat c mod 64 < 64"
    using a b c by auto
  have "(unat a div 4) * 4 + (unat a mod 4 * 16 + unat b div 16) div 16 = unat a"
    using b by auto
  moreover have "((unat a mod 4 * 16 + unat b div 16) mod 16) * 16 + (unat b mod 16 * 4 + unat c div 64) div 4 = unat b"
    using b c by auto
  moreover have "((unat b mod 16 * 4 + unat c div 64) mod 4) * 64 + unat c mod 64 = unat c"
    using c by auto
  ultimately show ?case
    using 1 i by (simp add: b64val_b64char b64char_not_special)
next
  case (2 a b)
  have a: "unat a < 256" and b: "unat b < 256"
    using unsigned_less [of a, where ?'a = nat] unsigned_less [of b, where ?'a = nat]
    by simp_all
  have i: "unat a div 4 < 64" "unat a mod 4 * 16 + unat b div 16 < 64" "unat b mod 16 * 4 < 64"
    using a b by auto
  have "(unat a div 4) * 4 + (unat a mod 4 * 16 + unat b div 16) div 16 = unat a"
    using b by auto
  moreover have "((unat a mod 4 * 16 + unat b div 16) mod 16) * 16 + (unat b mod 16 * 4) div 4 = unat b"
    using b by auto
  ultimately show ?case
    using i by (simp add: b64val_b64char b64char_not_special)
next
  case (3 a)
  have a: "unat a < 256"
    using unsigned_less [of a, where ?'a = nat] by simp
  have i: "unat a div 4 < 64" "unat a mod 4 * 16 < 64"
    using a by auto
  have "(unat a div 4) * 4 + (unat a mod 4 * 16) div 16 = unat a"
    by auto
  then show ?case
    using i by (simp add: b64val_b64char b64char_not_special)
next
  case 4
  then show ?case by simp
qed


lemma base64_chars: "c \<in> set (base64 bs) \<Longrightarrow> c \<noteq> CHR 0x22"
  by (induction bs rule: base64.induct) (auto simp add: b64char_not_quote)

lemma undecimal_snoc: "undecimal (ds @ [c]) = 10 * undecimal ds + (of_char c - 48)"
  by (simp add: undecimal_def)

lemma undecimal_decimal: "undecimal (decimal n) = n"
proof (induction n rule: decimal.induct)
  case (1 n)
  show ?case
  proof (cases "n < 10")
    case True
    then show ?thesis
      by (subst decimal.simps) (simp add: undecimal_def)
  next
    case False
    then have "undecimal (decimal (n div 10)) = n div 10"
      using 1 by simp
    with False show ?thesis
      by (subst decimal.simps) (simp add: undecimal_snoc)
  qed
qed

lemma decimal_digits: "list_all isDigit (decimal n)"
proof (induction n rule: decimal.induct)
  case (1 n)
  show ?case
  proof (cases "n < 10")
    case True
    then show ?thesis
      by (subst decimal.simps) (simp add: isDigit_def)
  next
    case False
    have "isDigit (char_of (48 + n mod 10))"
      by (simp add: isDigit_def)
    with False 1 show ?thesis
      by (subst decimal.simps) simp
  qed
qed

lemma decimal_nonempty: "decimal n \<noteq> []"
  by (subst decimal.simps) simp

lemma decimal_hd: "0 < n \<Longrightarrow> hd (decimal n) \<noteq> CHR ''0''"
proof (induction n rule: decimal.induct)
  case (1 n)
  show ?case
  proof (cases "n < 10")
    case True
    have "char_of (48 + n) \<noteq> CHR ''0''"
    proof
      assume "char_of (48 + n) = CHR ''0''"
      then have "(of_char (char_of (48 + n) :: char) :: nat) = of_char (CHR ''0'')"
        by simp
      with True 1(2) show False by simp
    qed
    with True show ?thesis
      by (subst decimal.simps) simp
  next
    case False
    then have "hd (decimal (n div 10)) \<noteq> CHR ''0''"
      using 1 by simp
    with False show ?thesis
      by (subst decimal.simps) (simp add: decimal_nonempty)
  qed
qed

lemma decimal_length: "n < 1000 \<Longrightarrow> length (decimal n) \<le> 3"
  by (subst decimal.simps, subst decimal.simps, subst decimal.simps) auto

lemma decimal_length1: "1 < length (decimal n) \<Longrightarrow> 0 < n"
  by (subst (asm) decimal.simps) (auto split: if_splits)

lemma json_header: "isDigit c \<Longrightarrow> c \<noteq> CHR ''}'' \<and> c \<noteq> CHR '',''"
  by (auto simp add: isDigit_def)

lemma takeWhile_digits:
  assumes "\<not> isDigit c"
  shows "takeWhile isDigit (decimal n @ c # rest) = decimal n"
    and "dropWhile isDigit (decimal n @ c # rest) = c # rest"
  using assms decimal_digits [of n] by (simp_all add: list_all_iff takeWhile_append2 dropWhile_append2)

lemma json_roundtrip: "jsonUnmarshalMessage (jsonMarshalMessage m) = Some m"
proof -
  define t where "t = unat (Type m)"
  have t: "t < 256"
    unfolding t_def using unsigned_less [of "Type m", where ?'a = nat] by simp
  have len: "length (decimal t) \<le> 3"
    using t by (intro decimal_length) simp
  have lead: "1 < length (decimal t) \<Longrightarrow> hd (decimal t) \<noteq> CHR ''0''"
    using decimal_length1 decimal_hd by blast
  have ty: "(of_nat t :: byte) = Type m"
    by (simp add: t_def)
  have nd: "\<not> isDigit (CHR ''}'')" "\<not> isDigit (CHR '','')"
    by (simp_all add: isDigit_def)
  show ?thesis
  proof (cases "Payload m = []")
    case True
    then show ?thesis
      using t len lead ty
      by (simp add: jsonUnmarshalMessage_def jsonMarshalMessage_def t_def [symmetric]
          takeWhile_digits [OF nd(1)] decimal_nonempty undecimal_decimal Let_def)
  next
    case False
    have q: "\<And>c. c \<in> set (base64 (Payload m)) \<Longrightarrow> c \<noteq> CHR 0x22"
      by (rule base64_chars)
    have tw: "takeWhile (\<lambda>c. c \<noteq> CHR 0x22) (base64 (Payload m) @ [CHR 0x22, CHR ''}''])
                = base64 (Payload m)"
      "dropWhile (\<lambda>c. c \<noteq> CHR 0x22) (base64 (Payload m) @ [CHR 0x22, CHR ''}''])
                = [CHR 0x22, CHR ''}'']"
      using q by (simp_all add: takeWhile_append2 dropWhile_append2)
    from False show ?thesis
      using t len lead ty
      by (simp add: jsonUnmarshalMessage_def jsonMarshalMessage_def t_def [symmetric]
          takeWhile_digits [OF nd(2)] decimal_nonempty undecimal_decimal Let_def tw
          unbase64_base64)
  qed
qed

lemma ReadFull_Inr:
  "ReadFull r n = (Inr d, r') \<longleftrightarrow> n \<le> length r \<and> d = take n r \<and> r' = drop n r"
  by (auto simp add: ReadFull_def)

lemma ReadMessage_too_large:
  assumes "4 \<le> length r" and "MaxMessageSize < unat (uint32be (take 4 r))"
  shows "ReadMessage L r = (Inl (MessageTooLarge (unat (uint32be (take 4 r)))), drop 4 r, [4])"
  using assms by (simp add: ReadMessage_def ReadFull_def)

lemma ReadMessage_Inr_bound:
  assumes "ReadMessage L r = (Inr m, r', bufs)"
  shows "\<exists>n. n \<le> MaxMessageSize \<and> length r = 4 + n + length r' \<and> bufs = [4, n]"
  using assms
  by (auto simp add: ReadMessage_def ReadFull_def Let_def
      split: if_splits option.splits)

text \<open>
  C4. When the four length bytes of a frame give a length above \<open>MaxMessageSize\<close>,
  \<open>ReadMessage\<close> fails with the too-large error having read those four bytes only and
  having made the buffer of 4 bytes only: no payload buffer is made. And whenever
  \<open>ReadMessage\<close> returns a message, it has read the 4 length bytes and a payload of at
  most \<open>MaxMessageSize\<close> bytes, into a buffer of that size.
\<close>

theorem ReadMessage_framing_bound:
  "(4 \<le> length r \<and> MaxMessageSize < unat (uint32be (take 4 r)) \<longrightarrow>
      ReadMessage L r = (Inl (MessageTooLarge (unat (uint32be (take 4 r)))), drop 4 r, [4]))
   \<and> (ReadMessage L r' = (Inr m, rest, bufs) \<longrightarrow>
      (\<exists>n. n \<le> MaxMessageSize \<and> length r' = 4 + n + length rest \<and> bufs = [4, n]))"
  using ReadMessage_too_large ReadMessage_Inr_bound by blast

lemma uint32be_example: "uint32be [6, 64, 0, 1] = 104857601"
  by (simp add: uint32be_def)

lemma unmarshal_complete:
  "jsonUnmarshalMessage [123, 34, 116, 121, 112, 101, 34, 58, 52, 125]
     = Some \<lparr>Type = MsgComplete, Payload = []\<rparr>"
  by code_simp

lemma uint32be_10: "uint32be [0, 0, 0, 10] = 10"
  by (simp add: uint32be_def)

lemma complete_frame:
  "ReadMessage exampleLibs [0, 0, 0, 10, 123, 34, 116, 121, 112, 101, 34, 58, 52, 125, 7]
     = (Inr \<lparr>Type = MsgComplete, Payload = []\<rparr>, [7], [4, 10])"
  by (simp add: ReadMessage_def ReadFull_def uint32be_10 MaxMessageSize_def exampleLibs_def
      unmarshal_complete)

theorem ReadMessage_framing_bound_witness:
  "(4 \<le> length [6, 64, 0, 1, 9, 9 :: byte]
      \<and> MaxMessageSize < unat (uint32be (take 4 [6, 64, 0, 1, 9, 9])))
   \<and> ReadMessage exampleLibs [6, 64, 0, 1, 9, 9]
       = (Inl (MessageTooLarge 104857601), [9, 9], [4])
   \<and> ReadMessage exampleLibs [0, 0, 0, 10, 123, 34, 116, 121, 112, 101, 34, 58, 52, 125, 7]
       = (Inr \<lparr>Type = MsgComplete, Payload = []\<rparr>, [7], [4, 10])
   \<and> (\<exists>n. n \<le> MaxMessageSize \<and> length [0, 0, 0, 10, 123, 34, 116, 121, 112, 101, 34, 58, 52, 125, 7 :: byte]
         = 4 + n + length [7 :: byte] \<and> [4, 10] = [4, n])"
  using ReadMessage_framing_bound
    [of "[6, 64, 0, 1, 9, 9]" exampleLibs
        "[0, 0, 0, 10, 123, 34, 116, 121, 112, 101, 34, 58, 52, 125, 7]"
        "\<lparr>Type = MsgComplete, Payload = []\<rparr>" "[7]" "[4, 10]"]
    complete_frame
  by (simp add: uint32be_example MaxMessageSize_def)

section \<open>Framing: reading what was written\<close>


lemma length_lengthBytes [simp]: "length (lengthBytes l) = 4"
  by (simp add: lengthBytes_def)

lemma unat_length32: "n < 2 ^ 32 \<Longrightarrow> unat (of_nat n :: 32 word) = n"
  by (simp add: unat_of_nat)

lemma ReadMessage_WriteMessage:
  assumes "unmarshalMessage L (marshalMessage L m) = Some m"
    and "length (marshalMessage L m) \<le> MaxMessageSize"
  shows "ReadMessage L (WriteMessage L [] m @ rest)
           = (Inr m, rest, [4, length (marshalMessage L m)])"
proof -
  have "length (marshalMessage L m) < 2 ^ 32"
    using assms(2) by (simp add: MaxMessageSize_def)
  then have "unat (of_nat (length (marshalMessage L m)) :: 32 word) = length (marshalMessage L m)"
    by (rule unat_length32)
  then show ?thesis
    using assms
    by (simp add: ReadMessage_def WriteMessage_def ReadFull_def Let_def uint32be_lengthBytes)
qed

lemma ReadMessage_WriteMessage_large:
  assumes "MaxMessageSize < length (marshalMessage L m)"
    and "length (marshalMessage L m) < 2 ^ 32"
  shows "ReadMessage L (WriteMessage L [] m @ rest)
           = (Inl (MessageTooLarge (length (marshalMessage L m))), marshalMessage L m @ rest, [4])"
proof -
  have "unat (of_nat (length (marshalMessage L m)) :: 32 word) = length (marshalMessage L m)"
    using assms(2) by (rule unat_length32)
  then show ?thesis
    using assms
    by (simp add: ReadMessage_def WriteMessage_def ReadFull_def Let_def uint32be_lengthBytes)
qed

lemma length_base64: "length (base64 bs) = 4 * ((length bs + 2) div 3)"
proof (induction bs rule: base64.induct)
  case (1 a b c xs)
  then show ?case by simp arith
qed simp_all

lemma length_bytes_of [simp]: "length (bytes_of s) = length s"
  by (simp add: bytes_of_def)

lemma decimal_small: "n < 10 \<Longrightarrow> decimal n = [char_of (48 + n)]"
  by (subst decimal.simps) simp

lemma exampleLibs_message [simp]:
  "marshalMessage exampleLibs = jsonMarshalMessage"
  "unmarshalMessage exampleLibs = jsonUnmarshalMessage"
  by (simp_all add: exampleLibs_def)

lemma handshake_text:
  \<open>jsonMarshalMessage \<lparr>Type = MsgHandshake, Payload = bytes_of ''123-456''\<rparr>
     = bytes_of ''{"type":6,"payload":"MTIzLTQ1Ng=="}''\<close>
  by code_simp

lemma big_message_length:
  "length (jsonMarshalMessage \<lparr>Type = MsgManifest, Payload = replicate 104857600 0\<rparr>)
     = 139810159"
  by (simp add: jsonMarshalMessage_def length_base64 MsgManifest_def decimal_small)

text \<open>
  C6 (amended). For every message whose JSON text is at most \<open>MaxMessageSize\<close> bytes long
  and is unmarshalled to the message again, \<open>ReadMessage\<close> on the bytes written by
  \<open>WriteMessage\<close> returns the message, with its type and the bytes of its payload, and
  leaves the bytes that follow it. The JSON library is a parameter, so that it inverts
  itself on the message is a condition; for the JSON text of \<open>jsonMarshalMessage\<close> and its
  decoder the condition always holds, and the bound on the length is the only one. A
  payload is its sequence of bytes: a nil and an empty slice are the same payload here.
  For a message whose JSON text is longer than \<open>MaxMessageSize\<close> and shorter than \<open>2 ^ 32\<close>
  bytes, \<open>ReadMessage\<close> on the bytes written returns the too-large error after the four
  length bytes. (From \<open>2 ^ 32\<close> bytes on the length written wraps around, and nothing is
  said.)
\<close>

theorem framing_roundtrip:
  "(unmarshalMessage L (marshalMessage L m) = Some m \<and> length (marshalMessage L m) \<le> MaxMessageSize
      \<longrightarrow> ReadMessage L (WriteMessage L [] m @ rest)
            = (Inr m, rest, [4, length (marshalMessage L m)]))
   \<and> (length (jsonMarshalMessage m) \<le> MaxMessageSize
      \<longrightarrow> ReadMessage exampleLibs (WriteMessage exampleLibs [] m @ rest)
            = (Inr m, rest, [4, length (jsonMarshalMessage m)]))
   \<and> (MaxMessageSize < length (marshalMessage L m) \<and> length (marshalMessage L m) < 2 ^ 32
      \<longrightarrow> ReadMessage L (WriteMessage L [] m @ rest)
            = (Inl (MessageTooLarge (length (marshalMessage L m))), marshalMessage L m @ rest, [4]))"
  using ReadMessage_WriteMessage [of L m rest] ReadMessage_WriteMessage [of exampleLibs m rest]
    ReadMessage_WriteMessage_large [of L m rest]
  by (simp add: json_roundtrip)

theorem framing_roundtrip_witness:
  "(unmarshalMessage exampleLibs
      (marshalMessage exampleLibs \<lparr>Type = MsgHandshake, Payload = bytes_of ''123-456''\<rparr>)
        = Some \<lparr>Type = MsgHandshake, Payload = bytes_of ''123-456''\<rparr>
    \<and> length (marshalMessage exampleLibs \<lparr>Type = MsgHandshake, Payload = bytes_of ''123-456''\<rparr>)
        \<le> MaxMessageSize)
   \<and> ReadMessage exampleLibs
        (WriteMessage exampleLibs [] \<lparr>Type = MsgHandshake, Payload = bytes_of ''123-456''\<rparr> @ [1, 2])
       = (Inr \<lparr>Type = MsgHandshake, Payload = bytes_of ''123-456''\<rparr>, [1, 2], [4, 35])
   \<and> (MaxMessageSize
        < length (marshalMessage exampleLibs \<lparr>Type = MsgManifest, Payload = replicate 104857600 0\<rparr>)
      \<and> length (marshalMessage exampleLibs \<lparr>Type = MsgManifest, Payload = replicate 104857600 0\<rparr>)
        < 2 ^ 32)
   \<and> ReadMessage exampleLibs
        (WriteMessage exampleLibs [] \<lparr>Type = MsgManifest, Payload = replicate 104857600 0\<rparr> @ [1, 2])
       = (Inl (MessageTooLarge 139810159),
          marshalMessage exampleLibs \<lparr>Type = MsgManifest, Payload = replicate 104857600 0\<rparr> @ [1, 2],
          [4])"
proof -
  let ?m = "\<lparr>Type = MsgHandshake, Payload = bytes_of ''123-456''\<rparr>"
  let ?big = "\<lparr>Type = MsgManifest, Payload = replicate 104857600 0\<rparr>"
  have h1: "unmarshalMessage exampleLibs (marshalMessage exampleLibs ?m) = Some ?m"
    by (simp add: json_roundtrip)
  have h2: "length (marshalMessage exampleLibs ?m) = 35"
    by (simp add: handshake_text)
  have h3: "length (marshalMessage exampleLibs ?m) \<le> MaxMessageSize"
    using h2 by (simp add: MaxMessageSize_def)
  from framing_roundtrip [of exampleLibs ?m "[1, 2]"] h1 h3
  have "ReadMessage exampleLibs (WriteMessage exampleLibs [] ?m @ [1, 2])
          = (Inr ?m, [1, 2], [4, length (marshalMessage exampleLibs ?m)])"
    by blast
  then have small: "ReadMessage exampleLibs (WriteMessage exampleLibs [] ?m @ [1, 2])
          = (Inr ?m, [1, 2], [4, 35])"
    by (simp only: h2)
  have b1: "length (marshalMessage exampleLibs ?big) = 139810159"
    using big_message_length by simp
  have b2: "MaxMessageSize < length (marshalMessage exampleLibs ?big)"
    and b3: "length (marshalMessage exampleLibs ?big) < 2 ^ 32"
    unfolding b1 by (simp_all add: MaxMessageSize_def)
  from framing_roundtrip [of exampleLibs ?big "[1, 2]"] b2 b3
  have "ReadMessage exampleLibs (WriteMessage exampleLibs [] ?big @ [1, 2])
          = (Inl (MessageTooLarge (length (marshalMessage exampleLibs ?big))),
             marshalMessage exampleLibs ?big @ [1, 2], [4])"
    by blast
  then have large: "ReadMessage exampleLibs (WriteMessage exampleLibs [] ?big @ [1, 2])
          = (Inl (MessageTooLarge 139810159), marshalMessage exampleLibs ?big @ [1, 2], [4])"
    by (simp only: b1)
  from h1 h3 small b2 b3 large show ?thesis
    by blast
qed

text \<open>
  C6 as stated, for every message, fails: \<open>WriteMessage\<close> writes a message of any size,
  and \<open>ReadMessage\<close> refuses a frame longer than \<open>MaxMessageSize\<close>. A manifest message
  with a payload of 100 MiB is written as a frame of 139810159 bytes and read back as the
  too-large error.
\<close>

theorem framing_roundtrip_counterexample:
  "fst (ReadMessage exampleLibs
          (WriteMessage exampleLibs [] \<lparr>Type = MsgManifest, Payload = replicate 104857600 0\<rparr>))
     = Inl (MessageTooLarge 139810159)"
  using big_message_length ReadMessage_WriteMessage_large
      [of exampleLibs "\<lparr>Type = MsgManifest, Payload = replicate 104857600 0\<rparr>" "[]"]
  by (simp add: MaxMessageSize_def)

section \<open>The copy loop and the file system\<close>

lemma copyLoop_eq:
  "copyLoop n s acc = (n - int (min (nat n) (length s)), drop (min (nat n) (length s)) s,
                       acc @ take (min (nat n) (length s)) s)"
proof (induction n s acc rule: copyLoop.induct)
  case (1 remaining src written)
  show ?case
  proof (cases "remaining > 0 \<and> src \<noteq> []")
    case False
    then show ?thesis
      by (subst copyLoop.simps) auto
  next
    case True
    define k where "k = min (nat (min (256 * 1024) remaining)) (length src)"
    have k: "k \<le> nat remaining" "k \<le> length src"
      using True by (auto simp add: k_def)
    have step: "copyLoop remaining src written
                  = copyLoop (remaining - int k) (drop k src) (written @ take k src)"
      using True by (subst copyLoop.simps) (simp add: Let_def k_def)
    have ih: "copyLoop (remaining - int k) (drop k src) (written @ take k src)
                = (remaining - int k - int (min (nat (remaining - int k)) (length (drop k src))),
                   drop (min (nat (remaining - int k)) (length (drop k src))) (drop k src),
                   (written @ take k src)
                     @ take (min (nat (remaining - int k)) (length (drop k src))) (drop k src))"
      using 1 [OF True refl, of k] by (simp add: k_def)
    have m: "min (nat (remaining - int k)) (length (drop k src)) + k
               = min (nat remaining) (length src)"
      using k by auto
    have t: "take k src @ take (min (nat (remaining - int k)) (length (drop k src))) (drop k src)
               = take (min (nat remaining) (length src)) src"
      using m by (metis add.commute take_add)
    have d: "drop (min (nat (remaining - int k)) (length (drop k src))) (drop k src)
               = drop (min (nat remaining) (length src)) src"
      using m by (simp add: add.commute)
    have i: "remaining - int k - int (min (nat (remaining - int k)) (length (drop k src)))
               = remaining - int (min (nat remaining) (length src))"
      using m by linarith
    show ?thesis
      unfolding step ih using t d i by simp
  qed
qed

lemma map_of_fsPut_new:
  "p \<notin> set (map fst f) \<Longrightarrow> map_of (fsPut p n f) q = (if q = p then Some n else map_of f q)"
proof -
  assume p: "p \<notin> set (map fst f)"
  then have "map_of f p = None"
    by (simp add: map_of_eq_None_iff)
  then show ?thesis
    using p by (auto simp add: fsPut_def map_of_append map_add_def split: option.splits)
qed

lemma mkdirs_keeps_files:
  "mkdirs f ds = Inr f' \<Longrightarrow> (map_of f' q = Some (File c m)) = (map_of f q = Some (File c m))"
proof (induction ds arbitrary: f)
  case Nil
  then show ?case by simp
next
  case (Cons d ds)
  show ?case
  proof (cases "map_of f d")
    case None
    then have "d \<notin> set (map fst f)"
      by (simp add: map_of_eq_None_iff)
    then have "(map_of (fsPut d Dir f) q = Some (File c m)) = (map_of f q = Some (File c m))"
      by (simp add: map_of_fsPut_new None)
    moreover have "mkdirs (fsPut d Dir f) ds = Inr f'"
      using Cons.prems None by simp
    ultimately show ?thesis
      using Cons.IH by blast
  next
    case (Some n)
    then show ?thesis
      using Cons by (cases n) auto
  qed
qed

lemma files_logOp [simp]: "files (logOp e w) = files w"
  by (simp add: logOp_def)

lemma MkdirAll_fileBytes:
  assumes "os_MkdirAll w p = (None, w1)"
  shows "fileBytes w1 q = fileBytes w q"
proof -
  obtain f' where f: "mkdirs (files w) (ancestors p) = Inr f'" and w1: "files w1 = f'"
    using assms by (auto simp add: os_MkdirAll_def split: sum.splits)
  have "\<And>c m. (map_of f' (Clean q) = Some (File c m)) = (map_of (files w) (Clean q) = Some (File c m))"
    using f by (rule mkdirs_keeps_files)
  then show ?thesis
    unfolding fileBytes_def w1
    by (cases "map_of f' (Clean q)"; cases "map_of (files w) (Clean q)")
       (auto split: node.splits)
qed

section \<open>receiveFile\<close>

lemma exampleLibs_fields [simp]:
  "unmarshalHandshake exampleLibs = decodeAmong jsonHandshake [''123-456'', ''000-000'']"
  "marshalHandshakeAck exampleLibs = jsonHandshakeAck"
  "unmarshalHandshakeAck exampleLibs = decodeAmong jsonHandshakeAck [False, True]"
  "marshalManifest exampleLibs = jsonManifest"
  "marshalIndentManifest exampleLibs = jsonManifest"
  "unmarshalManifest exampleLibs
     = decodeAmong jsonManifest [evilManifest, noteManifest, siblingManifest]"
  "marshalResume exampleLibs = jsonResume"
  "unmarshalResume exampleLibs = decodeAmong jsonResume [[], [(''a.txt'', 2)], [(''a.txt'', - 5)]]"
  "marshalFileStart exampleLibs = jsonFileStart"
  "unmarshalFileStart exampleLibs = decodeAmong jsonFileStart
        [\<lparr>fsPath = ''../foo-evil/x'', fsSize = 3, fsOffset = 0\<rparr>,
         \<lparr>fsPath = ''a.txt'', fsSize = 3, fsOffset = 0\<rparr>,
         \<lparr>fsPath = ''a.txt'', fsSize = 3, fsOffset = 3\<rparr>,
         \<lparr>fsPath = ''ghost.txt'', fsSize = 3, fsOffset = 0\<rparr>,
         \<lparr>fsPath = ''../../etc/x'', fsSize = 3, fsOffset = 3\<rparr>,
         \<lparr>fsPath = ''x'', fsSize = 3, fsOffset = 0\<rparr>]"
  "blake3Sum256 exampleLibs = (\<lambda>bs. bs)"
  "gzipWrite exampleLibs = (\<lambda>bs. bs)"
  "gzipRead exampleLibs = Some"
  by (simp_all add: exampleLibs_def)

lemma small_message:
  assumes "length (Payload m) \<le> 1000"
  shows "length (jsonMarshalMessage m) \<le> MaxMessageSize"
proof -
  have "unat (Type m) < 1000"
    using unsigned_less [of "Type m", where ?'a = nat] by simp
  then have "length (decimal (unat (Type m))) \<le> 3"
    by (rule decimal_length)
  moreover have "length (base64 (Payload m)) \<le> 4 * 334"
    unfolding length_base64 using assms by simp
  ultimately show ?thesis
    by (simp add: jsonMarshalMessage_def MaxMessageSize_def)
qed

lemma read_frame:
  assumes "length (Payload m) \<le> 1000"
  shows "ReadMessage exampleLibs (WriteMessage exampleLibs [] m @ rest)
           = (Inr m, rest, [4, length (jsonMarshalMessage m)])"
  using ReadMessage_WriteMessage [of exampleLibs m rest] small_message [OF assms]
  by (simp add: json_roundtrip)

text \<open>
  C9. When the offset of a \<^verbatim>\<open>FileStart\<close> equals its size, \<open>receiveFile\<close> only reads
  the next message: when that is a \<^verbatim>\<open>FileEnd\<close> it returns success with the stream just
  after it, and in every case the world is as before, with no file made, opened or
  written and no \<^verbatim>\<open>os\<close> call logged. This holds for every path, also one that leaves
  the destination folder (the path is not checked), and for every manifest, also one whose
  entry for the path has a checksum (the checksum is not compared).
\<close>

theorem receiveFile_offset_equals_size:
  assumes "unmarshalFileStart L (Payload startMsg) = Some fileStart"
    and "fsOffset fileStart = fsSize fileStart"
  shows "(ReadMessage L stream = (Inr endMsg, rest, bufs) \<and> Type endMsg = MsgFileEnd
            \<longrightarrow> receiveFile L man w stream startMsg destFolder = (None, rest, w))
         \<and> snd (snd (receiveFile L man w stream startMsg destFolder)) = w"
  using assms
  by (auto simp add: receiveFile_def Let_def split: prod.splits sum.splits)

lemma decode_escape:
  "decodeAmong jsonFileStart
        [\<lparr>fsPath = ''../foo-evil/x'', fsSize = 3, fsOffset = 0\<rparr>,
         \<lparr>fsPath = ''a.txt'', fsSize = 3, fsOffset = 0\<rparr>,
         \<lparr>fsPath = ''a.txt'', fsSize = 3, fsOffset = 3\<rparr>,
         \<lparr>fsPath = ''ghost.txt'', fsSize = 3, fsOffset = 0\<rparr>,
         \<lparr>fsPath = ''../../etc/x'', fsSize = 3, fsOffset = 3\<rparr>,
         \<lparr>fsPath = ''x'', fsSize = 3, fsOffset = 0\<rparr>]
     (jsonFileStart \<lparr>fsPath = ''../../etc/x'', fsSize = 3, fsOffset = 3\<rparr>)
   = Some \<lparr>fsPath = ''../../etc/x'', fsSize = 3, fsOffset = 3\<rparr>"
  by code_simp

theorem receiveFile_offset_equals_size_witness:
  "unmarshalFileStart exampleLibs
     (Payload \<lparr>Type = MsgFileStart,
               Payload = jsonFileStart \<lparr>fsPath = ''../../etc/x'', fsSize = 3, fsOffset = 3\<rparr>\<rparr>)
     = Some \<lparr>fsPath = ''../../etc/x'', fsSize = 3, fsOffset = 3\<rparr>
   \<and> fsOffset \<lparr>fsPath = ''../../etc/x'', fsSize = 3, fsOffset = 3\<rparr>
       = fsSize \<lparr>fsPath = ''../../etc/x'', fsSize = 3, fsOffset = 3\<rparr>
   \<and> ReadMessage exampleLibs (WriteMessage exampleLibs [] \<lparr>Type = MsgFileEnd, Payload = []\<rparr> @ [9])
       = (Inr \<lparr>Type = MsgFileEnd, Payload = []\<rparr>, [9],
          [4, length (jsonMarshalMessage \<lparr>Type = MsgFileEnd, Payload = []\<rparr>)])
   \<and> receiveFile exampleLibs
         \<lparr>FolderName = ''foo'', TotalSize = 3,
          Files = [\<lparr>Path = ''../../etc/x'', Size = 3, Mode = 420, Checksum = ''ffff'',
                    BlockHashes = [], BlockSize = 0\<rparr>]\<rparr>
         \<lparr>files = [(''/d'', Dir)], ops = []\<rparr>
         (WriteMessage exampleLibs [] \<lparr>Type = MsgFileEnd, Payload = []\<rparr> @ [9])
         \<lparr>Type = MsgFileStart,
          Payload = jsonFileStart \<lparr>fsPath = ''../../etc/x'', fsSize = 3, fsOffset = 3\<rparr>\<rparr>
         ''/d/foo''
       = (None, [9], \<lparr>files = [(''/d'', Dir)], ops = []\<rparr>)"
proof -
  let ?fs = "\<lparr>fsPath = ''../../etc/x'', fsSize = 3, fsOffset = 3\<rparr>"
  let ?start = "\<lparr>Type = MsgFileStart, Payload = jsonFileStart ?fs\<rparr>"
  let ?end = "\<lparr>Type = MsgFileEnd, Payload = []\<rparr>"
  have h1: "unmarshalFileStart exampleLibs (Payload ?start) = Some ?fs"
    by (simp add: decode_escape)
  have h2: "fsOffset ?fs = fsSize ?fs"
    by simp
  have h3: "ReadMessage exampleLibs (WriteMessage exampleLibs [] ?end @ [9])
              = (Inr ?end, [9], [4, length (jsonMarshalMessage ?end)])"
    by (rule read_frame) simp
  have h4: "Type ?end = MsgFileEnd"
    by simp
  show ?thesis
    using receiveFile_offset_equals_size [OF h1 h2] h1 h2 h3 h4 by blast
qed

lemma hashExisting_Inr:
  "hashExisting w p off = (Inr h, w') \<Longrightarrow> h = take (nat off) (fileBytes w p)"
  by (auto simp add: hashExisting_def os_Open_def fileBytes_def
      split: option.splits node.splits if_splits)

lemma receiveFile_write_entry:
  assumes ok: "receiveFile_write L None fileStart filePath w1 stream = (None, stream', w')"
  shows "receiveFile_write L entry fileStart filePath w1 stream =
     (let existing = (if fsOffset fileStart > 0
                      then take (nat (fsOffset fileStart)) (fileBytes w1 filePath) else []);
          received = take (nat (i64 (fsSize fileStart - fsOffset fileStart))) stream;
          actualHash = hexEncode (blake3Sum256 L (existing @ received))
      in case entry of
           None \<Rightarrow> (None, stream', w')
         | Some en \<Rightarrow>
             if Checksum en \<noteq> [] \<and> actualHash \<noteq> Checksum en
             then (Some (ChecksumMismatch (fsPath fileStart) (Checksum en) actualHash), stream', w')
             else (None, stream', w'))"
proof -
  define hr where "hr = (if fsOffset fileStart > 0
                         then hashExisting w1 filePath (fsOffset fileStart) else (Inr [], w1))"
  define total where "total = i64 (fsSize fileStart - fsOffset fileStart)"
  define k where "k = min (nat total) (length stream)"
  note defs = receiveFile_write_def hr_def [symmetric] total_def [symmetric]
  have cl: "copyLoop total stream [] = (total - int k, drop k stream, take k stream)"
    by (simp add: copyLoop_eq k_def)
  obtain x wa where hr: "hr = (x, wa)"
    by (cases hr)
  obtain hashed where x: "x = Inr hashed"
    using ok unfolding defs hr by (cases x) simp_all
  have hashed: "hashed = (if fsOffset fileStart > 0
                          then take (nat (fsOffset fileStart)) (fileBytes w1 filePath) else [])"
    using hr x hashExisting_Inr [of w1 filePath "fsOffset fileStart" hashed wa]
    by (auto simp add: hr_def split: if_splits)
  obtain oe wb where op: "os_OpenFile wa filePath (\<not> fsOffset fileStart > 0) 420 = (oe, wb)"
    by (cases "os_OpenFile wa filePath (\<not> fsOffset fileStart > 0) 420")
  have oe: "oe = None"
    using ok unfolding defs hr x by (cases oe) (simp_all add: op)
  define w4 where "w4 = writeReceived (truncateToOffset wb filePath (fsOffset fileStart)) filePath
                          (take k stream)"
  have rem: "total - int k = 0"
    using ok unfolding defs hr x
    by (simp add: op oe Let_def cl split: if_splits)
  then have k: "k = nat total"
    by (simp add: k_def)
  obtain rm s2 bufs where rd: "ReadMessage L (drop k stream) = (rm, s2, bufs)"
    by (cases "ReadMessage L (drop k stream)")
  have fin: "\<exists>endMsg. rm = Inr endMsg \<and> Type endMsg = MsgFileEnd \<and> stream' = s2 \<and> w' = w4"
    using ok unfolding defs hr x
    by (cases rm) (simp_all add: op oe Let_def cl rem rd w4_def split: if_splits)
  then obtain endMsg where e: "rm = Inr endMsg" "Type endMsg = MsgFileEnd" "stream' = s2" "w' = w4"
    by blast
  show ?thesis
    unfolding defs hr x
    by (cases entry)
       (simp_all add: op oe Let_def cl rem rd e w4_def [symmetric] hashed k [symmetric])
qed

lemma decode_note:
  "decodeAmong jsonFileStart
        [\<lparr>fsPath = ''../foo-evil/x'', fsSize = 3, fsOffset = 0\<rparr>,
         \<lparr>fsPath = ''a.txt'', fsSize = 3, fsOffset = 0\<rparr>,
         \<lparr>fsPath = ''a.txt'', fsSize = 3, fsOffset = 3\<rparr>,
         \<lparr>fsPath = ''ghost.txt'', fsSize = 3, fsOffset = 0\<rparr>,
         \<lparr>fsPath = ''../../etc/x'', fsSize = 3, fsOffset = 3\<rparr>,
         \<lparr>fsPath = ''x'', fsSize = 3, fsOffset = 0\<rparr>]
     (jsonFileStart \<lparr>fsPath = ''a.txt'', fsSize = 3, fsOffset = 0\<rparr>)
   = Some \<lparr>fsPath = ''a.txt'', fsSize = 3, fsOffset = 0\<rparr>"
  by code_simp

lemma paths_note:
  "Join ''/d/foo'' ''a.txt'' = ''/d/foo/a.txt''"
  "Clean ''/d/foo'' = ''/d/foo''"
  "Clean ''/d/foo/a.txt'' = ''/d/foo/a.txt''"
  "Dir_of ''/d/foo/a.txt'' = ''/d/foo''"
  "HasPrefix ''/d/foo/a.txt'' ''/d/foo/''"
  by code_simp+

lemma mkdir_note:
  "os_MkdirAll \<lparr>files = [(''/d'', Dir), (''/d/foo'', Dir)], ops = []\<rparr> ''/d/foo''
     = (None, \<lparr>files = [(''/d'', Dir), (''/d/foo'', Dir)], ops = [OpMkdirAll ''/d/foo'']\<rparr>)"
  by code_simp

lemma open_note:
  "os_OpenFile \<lparr>files = [(''/d'', Dir), (''/d/foo'', Dir)], ops = [OpMkdirAll ''/d/foo'']\<rparr>
     ''/d/foo/a.txt'' True 420
     = (None, \<lparr>files = [(''/d'', Dir), (''/d/foo'', Dir), (''/d/foo/a.txt'', File [] 420)],
                ops = [OpMkdirAll ''/d/foo'', OpOpenFile ''/d/foo/a.txt'']\<rparr>)"
  by code_simp

lemma write_note:
  "writeReceived (truncateToOffset
      \<lparr>files = [(''/d'', Dir), (''/d/foo'', Dir), (''/d/foo/a.txt'', File [] 420)],
                ops = [OpMkdirAll ''/d/foo'', OpOpenFile ''/d/foo/a.txt'']\<rparr> ''/d/foo/a.txt'' 0)
      ''/d/foo/a.txt'' [7, 8, 9]
    = \<lparr>files = [(''/d'', Dir), (''/d/foo'', Dir), (''/d/foo/a.txt'', File [7, 8, 9] 420)],
        ops = [OpMkdirAll ''/d/foo'', OpOpenFile ''/d/foo/a.txt'', OpWrite ''/d/foo/a.txt'']\<rparr>"
  by code_simp

lemma i64_small: "i64 3 = 3" "i64 0 = 0"
  by (simp_all add: i64_def)

lemma run_note:
  "receiveFile exampleLibs (noteManifest\<lparr>Files := []\<rparr>)
     \<lparr>files = [(''/d'', Dir), (''/d/foo'', Dir)], ops = []\<rparr>
     ([7, 8, 9] @ WriteMessage exampleLibs [] \<lparr>Type = MsgFileEnd, Payload = []\<rparr>)
     \<lparr>Type = MsgFileStart, Payload = jsonFileStart \<lparr>fsPath = ''a.txt'', fsSize = 3, fsOffset = 0\<rparr>\<rparr>
     ''/d/foo''
   = (None, [],
      \<lparr>files = [(''/d'', Dir), (''/d/foo'', Dir), (''/d/foo/a.txt'', File [7, 8, 9] 420)],
        ops = [OpMkdirAll ''/d/foo'', OpOpenFile ''/d/foo/a.txt'', OpWrite ''/d/foo/a.txt'']\<rparr>)"
  using read_frame [of "\<lparr>Type = MsgFileEnd, Payload = []\<rparr>" "[]"]
  by (simp add: receiveFile_def receiveFile_write_def decode_note paths_note mkdir_note open_note
      write_note i64_small copyLoop_eq Let_def)

lemma decode_ghost:
  "decodeAmong jsonFileStart
        [\<lparr>fsPath = ''../foo-evil/x'', fsSize = 3, fsOffset = 0\<rparr>,
         \<lparr>fsPath = ''a.txt'', fsSize = 3, fsOffset = 0\<rparr>,
         \<lparr>fsPath = ''a.txt'', fsSize = 3, fsOffset = 3\<rparr>,
         \<lparr>fsPath = ''ghost.txt'', fsSize = 3, fsOffset = 0\<rparr>,
         \<lparr>fsPath = ''../../etc/x'', fsSize = 3, fsOffset = 3\<rparr>,
         \<lparr>fsPath = ''x'', fsSize = 3, fsOffset = 0\<rparr>]
     (jsonFileStart \<lparr>fsPath = ''ghost.txt'', fsSize = 3, fsOffset = 0\<rparr>)
   = Some \<lparr>fsPath = ''ghost.txt'', fsSize = 3, fsOffset = 0\<rparr>"
  by code_simp

lemma paths_ghost:
  "Join ''/d/foo'' ''ghost.txt'' = ''/d/foo/ghost.txt''"
  "Clean ''/d/foo'' = ''/d/foo''"
  "Clean ''/d/foo/ghost.txt'' = ''/d/foo/ghost.txt''"
  "Dir_of ''/d/foo/ghost.txt'' = ''/d/foo''"
  "HasPrefix ''/d/foo/ghost.txt'' ''/d/foo/''"
  by code_simp+

lemma open_ghost:
  "os_OpenFile \<lparr>files = [(''/d'', Dir), (''/d/foo'', Dir)], ops = [OpMkdirAll ''/d/foo'']\<rparr>
     ''/d/foo/ghost.txt'' True 420
     = (None, \<lparr>files = [(''/d'', Dir), (''/d/foo'', Dir), (''/d/foo/ghost.txt'', File [] 420)],
                ops = [OpMkdirAll ''/d/foo'', OpOpenFile ''/d/foo/ghost.txt'']\<rparr>)"
  by code_simp

lemma write_ghost:
  "writeReceived (truncateToOffset
      \<lparr>files = [(''/d'', Dir), (''/d/foo'', Dir), (''/d/foo/ghost.txt'', File [] 420)],
                ops = [OpMkdirAll ''/d/foo'', OpOpenFile ''/d/foo/ghost.txt'']\<rparr> ''/d/foo/ghost.txt'' 0)
      ''/d/foo/ghost.txt'' [7, 8, 9]
    = \<lparr>files = [(''/d'', Dir), (''/d/foo'', Dir), (''/d/foo/ghost.txt'', File [7, 8, 9] 420)],
        ops = [OpMkdirAll ''/d/foo'', OpOpenFile ''/d/foo/ghost.txt'', OpWrite ''/d/foo/ghost.txt'']\<rparr>"
  by code_simp


text \<open>
  C5 (amended). For a \<^verbatim>\<open>FileStart\<close> whose offset differs from its size, the manifest
  entry with the same path is looked up and decides nothing but the checksum comparison:
  whenever \<open>receiveFile\<close> succeeds against the manifest without its entries, it returns,
  against the manifest itself, success when no entry has the path (a missing entry is not
  an error) or the entry has an empty checksum, and otherwise compares the hex BLAKE3 hash
  of the existing prefix followed by the received bytes with the checksum of the entry:
  success when they are equal, the checksum-mismatch error when they differ. The stream and
  the files are the same in each case.
\<close>

theorem receiveFile_checksum:
  assumes dec: "unmarshalFileStart L (Payload startMsg) = Some fileStart"
    and ne: "fsOffset fileStart \<noteq> fsSize fileStart"
    and base: "receiveFile L (man\<lparr>Files := []\<rparr>) w stream startMsg destFolder = (None, stream', w')"
  shows "receiveFile L man w stream startMsg destFolder =
     (let filePath = Join destFolder (fsPath fileStart);
          existing = (if fsOffset fileStart > 0
                      then take (nat (fsOffset fileStart)) (fileBytes w filePath) else []);
          received = take (nat (i64 (fsSize fileStart - fsOffset fileStart))) stream;
          actualHash = hexEncode (blake3Sum256 L (existing @ received))
      in case find (\<lambda>e. Path e = fsPath fileStart) (Files man) of
           None \<Rightarrow> (None, stream', w')
         | Some en \<Rightarrow>
             if Checksum en \<noteq> [] \<and> actualHash \<noteq> Checksum en
             then (Some (ChecksumMismatch (fsPath fileStart) (Checksum en) actualHash), stream', w')
             else (None, stream', w'))"
proof -
  let ?filePath = "Join destFolder (fsPath fileStart)"
  have pre: "HasPrefix (Clean ?filePath) (Clean destFolder @ ''/'')"
    using base dec ne by (simp add: receiveFile_def Let_def split: if_splits)
  obtain oe w1 where mk: "os_MkdirAll w (Dir_of ?filePath) = (oe, w1)"
    by (cases "os_MkdirAll w (Dir_of ?filePath)")
  have oe: "oe = None"
    using base dec ne pre by (cases oe) (simp_all add: receiveFile_def Let_def mk)
  have wr: "receiveFile_write L None fileStart ?filePath w1 stream = (None, stream', w')"
    using base dec ne pre by (simp add: receiveFile_def Let_def mk oe)
  have fb: "fileBytes w1 ?filePath = fileBytes w ?filePath"
    using mk oe MkdirAll_fileBytes by blast
  show ?thesis
    using dec ne pre
    by (simp add: receiveFile_def Let_def mk oe receiveFile_write_entry [OF wr, unfolded fb Let_def])
qed

lemma hex_note: "hexEncode [7, 8, 9] = ''070809''"
  by code_simp

theorem receiveFile_checksum_witness:
  "unmarshalFileStart exampleLibs
     (Payload \<lparr>Type = MsgFileStart,
               Payload = jsonFileStart \<lparr>fsPath = ''a.txt'', fsSize = 3, fsOffset = 0\<rparr>\<rparr>)
     = Some \<lparr>fsPath = ''a.txt'', fsSize = 3, fsOffset = 0\<rparr>
   \<and> fsOffset \<lparr>fsPath = ''a.txt'', fsSize = 3, fsOffset = 0\<rparr>
       \<noteq> fsSize \<lparr>fsPath = ''a.txt'', fsSize = 3, fsOffset = 0\<rparr>
   \<and> receiveFile exampleLibs (noteManifest\<lparr>Files := []\<rparr>)
         \<lparr>files = [(''/d'', Dir), (''/d/foo'', Dir)], ops = []\<rparr>
         ([7, 8, 9] @ WriteMessage exampleLibs [] \<lparr>Type = MsgFileEnd, Payload = []\<rparr>)
         \<lparr>Type = MsgFileStart,
          Payload = jsonFileStart \<lparr>fsPath = ''a.txt'', fsSize = 3, fsOffset = 0\<rparr>\<rparr>
         ''/d/foo''
       = (None, [],
          \<lparr>files = [(''/d'', Dir), (''/d/foo'', Dir), (''/d/foo/a.txt'', File [7, 8, 9] 420)],
            ops = [OpMkdirAll ''/d/foo'', OpOpenFile ''/d/foo/a.txt'', OpWrite ''/d/foo/a.txt'']\<rparr>)
   \<and> receiveFile exampleLibs noteManifest
         \<lparr>files = [(''/d'', Dir), (''/d/foo'', Dir)], ops = []\<rparr>
         ([7, 8, 9] @ WriteMessage exampleLibs [] \<lparr>Type = MsgFileEnd, Payload = []\<rparr>)
         \<lparr>Type = MsgFileStart,
          Payload = jsonFileStart \<lparr>fsPath = ''a.txt'', fsSize = 3, fsOffset = 0\<rparr>\<rparr>
         ''/d/foo''
       = (None, [],
          \<lparr>files = [(''/d'', Dir), (''/d/foo'', Dir), (''/d/foo/a.txt'', File [7, 8, 9] 420)],
            ops = [OpMkdirAll ''/d/foo'', OpOpenFile ''/d/foo/a.txt'', OpWrite ''/d/foo/a.txt'']\<rparr>)"
proof -
  let ?fs = "\<lparr>fsPath = ''a.txt'', fsSize = 3, fsOffset = 0\<rparr>"
  let ?start = "\<lparr>Type = MsgFileStart, Payload = jsonFileStart ?fs\<rparr>"
  have h1: "unmarshalFileStart exampleLibs (Payload ?start) = Some ?fs"
    by (simp add: decode_note)
  have h2: "fsOffset ?fs \<noteq> fsSize ?fs"
    by simp
  note h3 = run_note
  have "receiveFile exampleLibs noteManifest
         \<lparr>files = [(''/d'', Dir), (''/d/foo'', Dir)], ops = []\<rparr>
         ([7, 8, 9] @ WriteMessage exampleLibs [] \<lparr>Type = MsgFileEnd, Payload = []\<rparr>)
         ?start ''/d/foo''
       = (None, [],
          \<lparr>files = [(''/d'', Dir), (''/d/foo'', Dir), (''/d/foo/a.txt'', File [7, 8, 9] 420)],
            ops = [OpMkdirAll ''/d/foo'', OpOpenFile ''/d/foo/a.txt'', OpWrite ''/d/foo/a.txt'']\<rparr>)"
    by (subst receiveFile_checksum [OF h1 h2 h3])
       (simp add: noteManifest_def noteEntry_def i64_small hex_note)
  with h1 h2 h3 show ?thesis
    by blast
qed

text \<open>
  C5 as stated fails: a \<^verbatim>\<open>FileStart\<close> for \<^verbatim>\<open>ghost.txt\<close>, a path with no entry in the
  manifest, is received and written, and \<open>receiveFile\<close> returns success.
\<close>

theorem receiveFile_checksum_counterexample:
  "find (\<lambda>e. Path e = ''ghost.txt'') (Files noteManifest) = None
   \<and> receiveFile exampleLibs noteManifest
         \<lparr>files = [(''/d'', Dir), (''/d/foo'', Dir)], ops = []\<rparr>
         ([7, 8, 9] @ WriteMessage exampleLibs [] \<lparr>Type = MsgFileEnd, Payload = []\<rparr>)
         \<lparr>Type = MsgFileStart,
          Payload = jsonFileStart \<lparr>fsPath = ''ghost.txt'', fsSize = 3, fsOffset = 0\<rparr>\<rparr>
         ''/d/foo''
       = (None, [],
          \<lparr>files = [(''/d'', Dir), (''/d/foo'', Dir), (''/d/foo/ghost.txt'', File [7, 8, 9] 420)],
            ops = [OpMkdirAll ''/d/foo'', OpOpenFile ''/d/foo/ghost.txt'',
                   OpWrite ''/d/foo/ghost.txt'']\<rparr>)"
  using read_frame [of "\<lparr>Type = MsgFileEnd, Payload = []\<rparr>" "[]"]
  by (simp add: receiveFile_def receiveFile_write_def decode_ghost paths_ghost mkdir_note open_ghost
      write_ghost i64_small copyLoop_eq Let_def noteManifest_def noteEntry_def)

section \<open>verifyLocalFile\<close>

lemma clean_bin: "Clean ''/d/foo/a.bin'' = ''/d/foo/a.bin''"
  by code_simp

text \<open>
  C2, at a local file larger than the entry: block-by-block verification makes no
  comparison of sizes. For an entry of 8 bytes in two blocks of 4 and a local file of 12
  bytes that starts with those 8, \<open>verifyLocalFile\<close> returns the offset 8, not 0; the two
  other modes return 0 for this file.
\<close>

theorem verifyLocalFile_larger_file:
  "fst (verifyLocalFile L plainReceiver
          \<lparr>files = [(''/d/foo/a.bin'', File [1, 2, 3, 4, 5, 6, 7, 8, 9, 9, 9, 9] 420)], ops = []\<rparr>
          ''/d/foo/a.bin''
          \<lparr>Path = ''a.bin'', Size = 8, Mode = 420, Checksum = [],
           BlockHashes = [hexEncode (blake3Sum256 L [1, 2, 3, 4]),
                          hexEncode (blake3Sum256 L [5, 6, 7, 8])],
           BlockSize = 4\<rparr>)
     = (8, None)"
  by (simp add: verifyLocalFile_def os_Stat_def os_Open_def clean_bin plainReceiver_def logOp_def)

section \<open>Receive\<close>

lemma evil_verify:
  "verifyFiles exampleLibs plainReceiver ''/d/foo'' evilWorld (Files evilManifest) []
     = (Inr [(''../foo-evil/x'', 3)],
        evilWorld\<lparr>ops := [OpStat ''/d/foo-evil/x'', OpOpen ''/d/foo-evil/x'']\<rparr>)"
  by code_simp

lemma evil_decode:
  "decodeAmong jsonHandshakeAck [False, True] (jsonHandshakeAck False) = Some False"
  "decodeAmong jsonManifest [evilManifest, noteManifest, siblingManifest] (jsonManifest evilManifest)
     = Some evilManifest"
  "decodeAmong jsonFileStart
        [\<lparr>fsPath = ''../foo-evil/x'', fsSize = 3, fsOffset = 0\<rparr>,
         \<lparr>fsPath = ''a.txt'', fsSize = 3, fsOffset = 0\<rparr>,
         \<lparr>fsPath = ''a.txt'', fsSize = 3, fsOffset = 3\<rparr>,
         \<lparr>fsPath = ''ghost.txt'', fsSize = 3, fsOffset = 0\<rparr>,
         \<lparr>fsPath = ''../../etc/x'', fsSize = 3, fsOffset = 3\<rparr>,
         \<lparr>fsPath = ''x'', fsSize = 3, fsOffset = 0\<rparr>]
     (jsonFileStart \<lparr>fsPath = ''../foo-evil/x'', fsSize = 3, fsOffset = 0\<rparr>)
   = Some \<lparr>fsPath = ''../foo-evil/x'', fsSize = 3, fsOffset = 0\<rparr>"
  by code_simp+

lemma evil_paths:
  "Join ''/d'' (FolderName evilManifest) = ''/d/foo''"
  "HasPrefix ''/d/foo'' (Clean ''/d'')"
  "Join ''/d/foo'' ''../foo-evil/x'' = ''/d/foo-evil/x''"
  "Clean ''/d/foo'' = ''/d/foo''"
  "Clean ''/d/foo-evil/x'' = ''/d/foo-evil/x''"
  "\<not> HasPrefix ''/d/foo-evil/x'' ''/d/foo/''"
  by code_simp+

lemma evil_mkdir:
  "os_MkdirAll (evilWorld\<lparr>ops := [OpStat ''/d/foo-evil/x'', OpOpen ''/d/foo-evil/x'']\<rparr>) ''/d/foo''
     = (None, \<lparr>files = [(''/d'', Dir), (''/d/foo-evil'', Dir),
                          (''/d/foo-evil/x'', File [1, 2, 3] 420), (''/d/foo'', Dir)],
                ops = [OpStat ''/d/foo-evil/x'', OpOpen ''/d/foo-evil/x'', OpMkdirAll ''/d/foo'']\<rparr>)"
  by code_simp

lemma evil_lengths:
  "length (jsonHandshakeAck False) \<le> 1000"
  "length (jsonManifest evilManifest) \<le> 1000"
  "length (jsonFileStart \<lparr>fsPath = ''../foo-evil/x'', fsSize = 3, fsOffset = 0\<rparr>) \<le> 1000"
  by code_simp+

lemma evil_run:
  "Receive exampleLibs plainReceiver evilWorld evilStream
     = (Some (ZipSlip ''../foo-evil/x''),
        frame \<lparr>Type = MsgHandshake, Payload = bytes_of ''123-456''\<rparr>
        @ frame \<lparr>Type = MsgResume, Payload = jsonResume [(''../foo-evil/x'', 3)]\<rparr>,
        \<lparr>files = [(''/d'', Dir), (''/d/foo-evil'', Dir),
                  (''/d/foo-evil/x'', File [1, 2, 3] 420), (''/d/foo'', Dir)],
         ops = [OpStat ''/d/foo-evil/x'', OpOpen ''/d/foo-evil/x'', OpMkdirAll ''/d/foo'']\<rparr>)"
proof -
  have sel: "DestPath plainReceiver = ''/d''" "Code plainReceiver = ''123-456''"
    "OnConfirmation plainReceiver = None"
    by (simp_all add: plainReceiver_def)
  have loop: "receiveMessages exampleLibs evilManifest ''/d/foo'' w
      (frame \<lparr>Type = MsgFileStart,
              Payload = jsonFileStart \<lparr>fsPath = ''../foo-evil/x'', fsSize = 3, fsOffset = 0\<rparr>\<rparr>
       @ rest)
     = (Some (ZipSlip ''../foo-evil/x''), rest, w)" for w rest
    by (subst receiveMessages.simps)
       (simp add: frame_def read_frame evil_lengths evil_decode evil_paths receiveFile_def Msg_defs)
  have data: "Receive_data exampleLibs plainReceiver evilWorld
      (frame \<lparr>Type = MsgManifest, Payload = jsonManifest evilManifest\<rparr>
       @ frame \<lparr>Type = MsgFileStart,
                Payload = jsonFileStart \<lparr>fsPath = ''../foo-evil/x'', fsSize = 3, fsOffset = 0\<rparr>\<rparr>
       @ rest)
     = (Some (ZipSlip ''../foo-evil/x''),
        frame \<lparr>Type = MsgResume, Payload = jsonResume [(''../foo-evil/x'', 3)]\<rparr>, rest,
        \<lparr>files = [(''/d'', Dir), (''/d/foo-evil'', Dir),
                  (''/d/foo-evil/x'', File [1, 2, 3] 420), (''/d/foo'', Dir)],
         ops = [OpStat ''/d/foo-evil/x'', OpOpen ''/d/foo-evil/x'', OpMkdirAll ''/d/foo'']\<rparr>)"
    for rest
    unfolding Receive_data_def
    by (simp add: frame_def read_frame evil_lengths evil_decode evil_paths evil_verify evil_mkdir
        Msg_defs sel loop [unfolded frame_def Msg_defs] Let_def)
  show ?thesis
    unfolding Receive_def evilStream_def
    by (simp add: frame_def read_frame evil_lengths evil_decode Msg_defs sel
        data [unfolded frame_def Msg_defs] Let_def)
qed

lemma sibling_verify:
  "verifyFiles exampleLibs plainReceiver ''/d-evil'' \<lparr>files = [(''/d'', Dir)], ops = []\<rparr>
     (Files siblingManifest) []
     = (Inr [], \<lparr>files = [(''/d'', Dir)], ops = [OpStat ''/d-evil/x'']\<rparr>)"
  by code_simp

lemma sibling_decode:
  "decodeAmong jsonManifest [evilManifest, noteManifest, siblingManifest]
     (jsonManifest siblingManifest) = Some siblingManifest"
  "decodeAmong jsonFileStart
        [\<lparr>fsPath = ''../foo-evil/x'', fsSize = 3, fsOffset = 0\<rparr>,
         \<lparr>fsPath = ''a.txt'', fsSize = 3, fsOffset = 0\<rparr>,
         \<lparr>fsPath = ''a.txt'', fsSize = 3, fsOffset = 3\<rparr>,
         \<lparr>fsPath = ''ghost.txt'', fsSize = 3, fsOffset = 0\<rparr>,
         \<lparr>fsPath = ''../../etc/x'', fsSize = 3, fsOffset = 3\<rparr>,
         \<lparr>fsPath = ''x'', fsSize = 3, fsOffset = 0\<rparr>]
     (jsonFileStart \<lparr>fsPath = ''x'', fsSize = 3, fsOffset = 0\<rparr>)
   = Some \<lparr>fsPath = ''x'', fsSize = 3, fsOffset = 0\<rparr>"
  by code_simp+

lemma sibling_paths:
  "Join ''/d'' (FolderName siblingManifest) = ''/d-evil''"
  "HasPrefix ''/d-evil'' (Clean ''/d'')"
  "Join ''/d-evil'' ''x'' = ''/d-evil/x''"
  "Clean ''/d-evil'' = ''/d-evil''"
  "Clean ''/d-evil/x'' = ''/d-evil/x''"
  "HasPrefix ''/d-evil/x'' ''/d-evil/''"
  "Dir_of ''/d-evil/x'' = ''/d-evil''"
  by code_simp+

lemma sibling_mkdir:
  "os_MkdirAll \<lparr>files = [(''/d'', Dir)], ops = [OpStat ''/d-evil/x'']\<rparr> ''/d-evil''
     = (None, \<lparr>files = [(''/d'', Dir), (''/d-evil'', Dir)],
                ops = [OpStat ''/d-evil/x'', OpMkdirAll ''/d-evil'']\<rparr>)"
  "os_MkdirAll \<lparr>files = [(''/d'', Dir), (''/d-evil'', Dir)],
                ops = [OpStat ''/d-evil/x'', OpMkdirAll ''/d-evil'']\<rparr> ''/d-evil''
     = (None, \<lparr>files = [(''/d'', Dir), (''/d-evil'', Dir)],
                ops = [OpStat ''/d-evil/x'', OpMkdirAll ''/d-evil'', OpMkdirAll ''/d-evil'']\<rparr>)"
  by code_simp+

lemma sibling_open:
  "os_OpenFile \<lparr>files = [(''/d'', Dir), (''/d-evil'', Dir)],
                ops = [OpStat ''/d-evil/x'', OpMkdirAll ''/d-evil'', OpMkdirAll ''/d-evil'']\<rparr>
     ''/d-evil/x'' True 420
     = (None, \<lparr>files = [(''/d'', Dir), (''/d-evil'', Dir), (''/d-evil/x'', File [] 420)],
                ops = [OpStat ''/d-evil/x'', OpMkdirAll ''/d-evil'', OpMkdirAll ''/d-evil'',
                       OpOpenFile ''/d-evil/x'']\<rparr>)"
  by code_simp

lemma sibling_write:
  "writeReceived (truncateToOffset
      \<lparr>files = [(''/d'', Dir), (''/d-evil'', Dir), (''/d-evil/x'', File [] 420)],
        ops = [OpStat ''/d-evil/x'', OpMkdirAll ''/d-evil'', OpMkdirAll ''/d-evil'',
               OpOpenFile ''/d-evil/x'']\<rparr> ''/d-evil/x'' 0)
      ''/d-evil/x'' [7, 8, 9]
    = \<lparr>files = [(''/d'', Dir), (''/d-evil'', Dir), (''/d-evil/x'', File [7, 8, 9] 420)],
        ops = [OpStat ''/d-evil/x'', OpMkdirAll ''/d-evil'', OpMkdirAll ''/d-evil'',
               OpOpenFile ''/d-evil/x'', OpWrite ''/d-evil/x'']\<rparr>"
  by code_simp

lemma sibling_lengths:
  "length (jsonManifest siblingManifest) \<le> 1000"
  "length (jsonFileStart \<lparr>fsPath = ''x'', fsSize = 3, fsOffset = 0\<rparr>) \<le> 1000"
  by code_simp+

lemma sibling_run:
  "Receive exampleLibs plainReceiver \<lparr>files = [(''/d'', Dir)], ops = []\<rparr> siblingStream
     = (None,
        frame \<lparr>Type = MsgHandshake, Payload = bytes_of ''123-456''\<rparr>
        @ frame \<lparr>Type = MsgResume, Payload = jsonResume []\<rparr>,
        \<lparr>files = [(''/d'', Dir), (''/d-evil'', Dir), (''/d-evil/x'', File [7, 8, 9] 420)],
          ops = [OpStat ''/d-evil/x'', OpMkdirAll ''/d-evil'', OpMkdirAll ''/d-evil'',
                 OpOpenFile ''/d-evil/x'', OpWrite ''/d-evil/x'']\<rparr>)"
proof -
  let ?w2 = "\<lparr>files = [(''/d'', Dir), (''/d-evil'', Dir)],
               ops = [OpStat ''/d-evil/x'', OpMkdirAll ''/d-evil'']\<rparr>"
  let ?w5 = "\<lparr>files = [(''/d'', Dir), (''/d-evil'', Dir), (''/d-evil/x'', File [7, 8, 9] 420)],
          ops = [OpStat ''/d-evil/x'', OpMkdirAll ''/d-evil'', OpMkdirAll ''/d-evil'',
                 OpOpenFile ''/d-evil/x'', OpWrite ''/d-evil/x'']\<rparr>"
  have sel: "DestPath plainReceiver = ''/d''" "Code plainReceiver = ''123-456''"
    "OnConfirmation plainReceiver = None"
    by (simp_all add: plainReceiver_def)
  have one: "receiveFile exampleLibs siblingManifest ?w2
      (7 # 8 # 9 # frame \<lparr>Type = MsgFileEnd, Payload = []\<rparr> @ rest)
      \<lparr>Type = MsgFileStart, Payload = jsonFileStart \<lparr>fsPath = ''x'', fsSize = 3, fsOffset = 0\<rparr>\<rparr>
      ''/d-evil'' = (None, rest, ?w5)" for rest
    using read_frame [of "\<lparr>Type = MsgFileEnd, Payload = []\<rparr>" rest]
    by (simp add: receiveFile_def receiveFile_write_def sibling_decode sibling_paths sibling_mkdir
        sibling_open sibling_write i64_small copyLoop_eq Let_def frame_def siblingManifest_def)
  have last: "receiveMessages exampleLibs siblingManifest ''/d-evil'' ?w5
      (frame \<lparr>Type = MsgComplete, Payload = []\<rparr>) = (None, [], ?w5)"
    using read_frame [of "\<lparr>Type = MsgComplete, Payload = []\<rparr>" "[]"]
    by (subst receiveMessages.simps) (simp add: frame_def Msg_defs)
  have loop: "receiveMessages exampleLibs siblingManifest ''/d-evil'' ?w2
      (frame \<lparr>Type = MsgFileStart,
              Payload = jsonFileStart \<lparr>fsPath = ''x'', fsSize = 3, fsOffset = 0\<rparr>\<rparr>
       @ 7 # 8 # 9 # frame \<lparr>Type = MsgFileEnd, Payload = []\<rparr>
       @ frame \<lparr>Type = MsgComplete, Payload = []\<rparr>)
     = (None, [], ?w5)"
    by (subst receiveMessages.simps)
       (simp add: frame_def read_frame sibling_lengths Msg_defs
          one [unfolded frame_def Msg_defs] last [unfolded frame_def Msg_defs])
  have data: "Receive_data exampleLibs plainReceiver \<lparr>files = [(''/d'', Dir)], ops = []\<rparr>
      (frame \<lparr>Type = MsgManifest, Payload = jsonManifest siblingManifest\<rparr>
       @ frame \<lparr>Type = MsgFileStart,
                Payload = jsonFileStart \<lparr>fsPath = ''x'', fsSize = 3, fsOffset = 0\<rparr>\<rparr>
       @ 7 # 8 # 9 # frame \<lparr>Type = MsgFileEnd, Payload = []\<rparr>
       @ frame \<lparr>Type = MsgComplete, Payload = []\<rparr>)
     = (None, frame \<lparr>Type = MsgResume, Payload = jsonResume []\<rparr>, [], ?w5)"
    unfolding Receive_data_def
    by (simp add: frame_def read_frame sibling_lengths sibling_decode sibling_paths sibling_verify
        sibling_mkdir Msg_defs sel loop [unfolded frame_def Msg_defs] Let_def)
  show ?thesis
    unfolding Receive_def siblingStream_def
    by (simp add: frame_def read_frame evil_lengths evil_decode Msg_defs sel
        data [unfolded frame_def Msg_defs] Let_def)
qed

text \<open>
  C1, on two manifests that leave the destination. \<open>Receive\<close> checks a path with
  \<^verbatim>\<open>strings.HasPrefix\<close> against the cleaned folder without a separator after it, so a
  sibling whose name starts with the name of the folder passes. In the first run the entry
  \<^verbatim>\<open>../foo-evil/x\<close> of the folder \<^verbatim>\<open>foo\<close> passes the check of \<open>Receive\<close>: the file
  \<^verbatim>\<open>/d/foo-evil/x\<close>, outside \<^verbatim>\<open>/d/foo\<close>, is opened and read for verification, the
  folder \<^verbatim>\<open>/d/foo\<close> is made on the disk, and only then the check of \<open>receiveFile\<close>, which
  has the separator, ends the transfer with the path error. In the second run the folder
  name \<^verbatim>\<open>../d-evil\<close> passes the check against \<^verbatim>\<open>/d\<close>, and the transfer succeeds
  having made \<^verbatim>\<open>/d-evil\<close> and written \<^verbatim>\<open>/d-evil/x\<close>, outside \<^verbatim>\<open>/d\<close>.
\<close>

theorem Receive_path_escape:
  "Receive exampleLibs plainReceiver evilWorld evilStream
     = (Some (ZipSlip ''../foo-evil/x''),
        frame \<lparr>Type = MsgHandshake, Payload = bytes_of ''123-456''\<rparr>
        @ frame \<lparr>Type = MsgResume, Payload = jsonResume [(''../foo-evil/x'', 3)]\<rparr>,
        \<lparr>files = [(''/d'', Dir), (''/d/foo-evil'', Dir),
                  (''/d/foo-evil/x'', File [1, 2, 3] 420), (''/d/foo'', Dir)],
         ops = [OpStat ''/d/foo-evil/x'', OpOpen ''/d/foo-evil/x'', OpMkdirAll ''/d/foo'']\<rparr>)
   \<and> Receive exampleLibs plainReceiver \<lparr>files = [(''/d'', Dir)], ops = []\<rparr> siblingStream
     = (None,
        frame \<lparr>Type = MsgHandshake, Payload = bytes_of ''123-456''\<rparr>
        @ frame \<lparr>Type = MsgResume, Payload = jsonResume []\<rparr>,
        \<lparr>files = [(''/d'', Dir), (''/d-evil'', Dir), (''/d-evil/x'', File [7, 8, 9] 420)],
          ops = [OpStat ''/d-evil/x'', OpMkdirAll ''/d-evil'', OpMkdirAll ''/d-evil'',
                 OpOpenFile ''/d-evil/x'', OpWrite ''/d-evil/x'']\<rparr>)"
  using evil_run sibling_run by simp

section \<open>The handshake\<close>






section \<open>The Sender\<close>















section \<open>Rendezvous\<close>

lemma length_state_bytes: "length (state_bytes s) = 32"
  by (induction s rule: state_bytes.induct) (simp add: word_bytes_def)

lemma length_sha256: "length (sha256 m) = 32"
  by (simp add: sha256_def Let_def length_state_bytes)

lemma length_hexEncode: "length (hexEncode bs) = 2 * length bs"
  by (induction bs) (simp_all add: hexEncode_def)

lemma digest_123456:
  "hexEncode (take 8 (sha256 (bytes_of ''123456''))) = ''8d969eef6ecad3c2''"
  by code_simp

lemma digest_654321:
  "hexEncode (take 8 (sha256 (bytes_of ''654321''))) = ''481f6cc0511143cc''"
  by code_simp

lemma digest_123_456:
  "hexEncode (take 8 (sha256 (bytes_of ''123-456''))) = ''83a417f0862b6610''"
  by code_simp

text \<open>
  C7 (amended). For every code, \<open>codeToRendezvous\<close> is the namespace
  \<^verbatim>\<open>2c1f-rendezvous\<close>, a \<^verbatim>\<open>/\<close> and the 16 lower-case hex digits of the first 8 bytes of
  the SHA-256 digest of the code. The digest model gives the two values the tests of the
  repository expect: the code \<^verbatim>\<open>123456\<close>, without a hyphen, gives
  \<^verbatim>\<open>2c1f-rendezvous/8d969eef6ecad3c2\<close>, and \<^verbatim>\<open>654321\<close> gives
  \<^verbatim>\<open>2c1f-rendezvous/481f6cc0511143cc\<close>.
\<close>

theorem codeToRendezvous_value:
  "codeToRendezvous code = ''2c1f-rendezvous/'' @ hexEncode (take 8 (sha256 (bytes_of code)))
   \<and> length (codeToRendezvous code) = 32
   \<and> codeToRendezvous ''123456'' = ''2c1f-rendezvous/8d969eef6ecad3c2''
   \<and> codeToRendezvous ''654321'' = ''2c1f-rendezvous/481f6cc0511143cc''"
  by (simp add: codeToRendezvous_def RendezvousNS_def Let_def length_hexEncode length_sha256
      digest_123456 digest_654321)

text \<open>
  C7 as stated fails at its example: the code \<^verbatim>\<open>123-456\<close>, with the hyphen, gives
  \<^verbatim>\<open>2c1f-rendezvous/83a417f0862b6610\<close>, not the digits \<^verbatim>\<open>8d969eef6ecad3c2\<close>, which
  belong to \<^verbatim>\<open>123456\<close>.
\<close>

theorem codeToRendezvous_value_counterexample:
  "codeToRendezvous ''123-456'' = ''2c1f-rendezvous/83a417f0862b6610''
   \<and> codeToRendezvous ''123-456'' \<noteq> RendezvousNS @ ''/8d969eef6ecad3c2''"
  by (simp add: codeToRendezvous_def RendezvousNS_def Let_def digest_123_456)

section \<open>The manifest builder\<close>

lemma os_Stat_files [simp]: "files (snd (os_Stat w p)) = files w"
  by (simp add: os_Stat_def split: option.splits node.splits)

lemma os_Open_files [simp]: "files (snd (os_Open w p)) = files w"
  by (simp add: os_Open_def split: option.splits)

lemma os_ReadFile_files [simp]: "files (snd (os_ReadFile w p)) = files w"
  by (simp add: os_ReadFile_def split: option.splits node.splits)

lemma calculateHashAndBlocks_files [simp]: "files (snd (calculateHashAndBlocks L w p)) = files w"
proof -
  obtain r w1 where op: "os_Open w p = (r, w1)"
    by (cases "os_Open w p")
  have "files w1 = files w"
    using os_Open_files [of w p] op by simp
  then show ?thesis
    by (simp add: calculateHashAndBlocks_def op split: sum.splits node.splits)
qed

lemma hashFiles_files: "files (snd (hashFiles L skipHash w ps)) = files w"
proof (induction ps arbitrary: w)
  case Nil
  then show ?case by simp
next
  case (Cons p ps)
  obtain walkPath relPath where p: "p = (walkPath, relPath)"
    by (cases p)
  obtain r1 w1 where st: "os_Stat w walkPath = (r1, w1)"
    by (cases "os_Stat w walkPath")
  have w1: "files w1 = files w"
    using os_Stat_files [of w walkPath] st by simp
  show ?case
  proof (cases r1)
    case (Inl e)
    then show ?thesis by (simp add: p st w1)
  next
    case (Inr info)
    obtain r2 w2 where h: "(if skipHash then (Inr ([], []), w1)
                            else calculateHashAndBlocks L w1 walkPath) = (r2, w2)"
      by (cases "if skipHash then (Inr ([], []), w1) else calculateHashAndBlocks L w1 walkPath")
    have w2: "files w2 = files w"
    proof (cases skipHash)
      case True
      then show ?thesis using h w1 by simp
    next
      case False
      then have "calculateHashAndBlocks L w1 walkPath = (r2, w2)"
        using h by simp
      then have "files w2 = files (snd (calculateHashAndBlocks L w1 walkPath))"
        by simp
      then show ?thesis using w1 by simp
    qed
    show ?thesis
    proof (cases r2)
      case (Inl e)
      then show ?thesis using Inr by (simp add: p st h w2)
    next
      case (Inr hb)
      obtain hash blockHashes where hb: "hb = (hash, blockHashes)"
        by (cases hb)
      obtain r3 w3 where rec: "hashFiles L skipHash w2 ps = (r3, w3)"
        by (cases "hashFiles L skipHash w2 ps")
      have "files w3 = files w"
        using Cons.IH [of w2] w2 rec by simp
      then show ?thesis
        using \<open>r1 = Inr info\<close> Inr
        by (cases r3) (simp_all add: p st h hb rec)
    qed
  qed
qed

lemma map_of_replace:
  "p \<in> set (map fst f) \<Longrightarrow>
     map_of (map (\<lambda>(q, m). if q = p then (q, n) else (q, m)) f) p = Some n"
  by (induction f) auto

lemma map_of_fsPut_same: "map_of (fsPut p n f) p = Some n"
proof (cases "p \<in> set (map fst f)")
  case True
  then show ?thesis
    by (simp add: fsPut_def map_of_replace del: set_map)
next
  case False
  then show ?thesis
    by (simp add: map_of_fsPut_new)
qed

lemma WriteFile_result:
  assumes "map_of (files w) (Clean p) \<noteq> Some Dir"
  shows "\<exists>pm. map_of (files (snd (os_WriteFile w p bs perm0))) (Clean p) = Some (File bs pm)
              \<and> (map_of (files w) (Clean p) = None \<longrightarrow> pm = perm0)"
proof (cases "map_of (files w) (Clean p)")
  case None
  then show ?thesis
    by (simp add: os_WriteFile_def map_of_fsPut_same)
next
  case (Some n)
  then obtain c m where "n = File c m"
    using assms by (cases n) auto
  then show ?thesis
    using Some by (simp add: os_WriteFile_def map_of_fsPut_same)
qed

lemma loadCache_files [simp]: "files (snd (loadCache L w p)) = files w"
proof -
  obtain r w1 where rd: "os_ReadFile w p = (r, w1)"
    by (cases "os_ReadFile w p")
  have "files w1 = files w"
    using os_ReadFile_files [of w p] rd by simp
  then show ?thesis
    by (cases r) (simp_all add: loadCache_def rd)
qed

lemma loadCache_hit:
  assumes "map_of (files w) (Clean p) = Some (File data pm)"
  shows "fst (loadCache L w p) = unmarshalManifest L data"
  using assms by (simp add: loadCache_def os_ReadFile_def)

lemma loadCache_miss:
  assumes "\<forall>data pm. map_of (files w) (Clean p) = Some (File data pm) \<longrightarrow> unmarshalManifest L data = None"
  shows "fst (loadCache L w p) = None"
  using assms by (auto simp add: loadCache_def os_ReadFile_def split: option.splits node.splits)

text \<open>
  C8 (amended). The cache file is \<^verbatim>\<open>.2c1f_manifest.json\<close> in the root, not
  \<^verbatim>\<open>.manifest-cache\<close>. For a root that is a directory, with the cache enabled and hashing
  not skipped: when that file is there and its bytes unmarshal to a manifest,
  \<open>BuildManifest\<close> returns that manifest and changes no file; when it is not there, or its
  bytes do not unmarshal, and the manifest is built successfully, the indented JSON of the
  manifest built is written to that file, which gets the mode 0600 when it is new.
\<close>

theorem BuildManifest_cache:
  assumes "fst (os_Stat w path) = Inr info" and "isDir info"
  shows "(map_of (files w) (Clean (Join path cacheName)) = Some (File data pm)
            \<and> unmarshalManifest L data = Some cached
          \<longrightarrow> fst (BuildManifest L path True False w) = Inr cached
              \<and> files (snd (BuildManifest L path True False w)) = files w)
         \<and> ((\<forall>data pm. map_of (files w) (Clean (Join path cacheName)) = Some (File data pm)
                          \<longrightarrow> unmarshalManifest L data = None)
             \<and> map_of (files w) (Clean (Join path cacheName)) \<noteq> Some Dir
             \<and> fst (BuildManifest L path True False w) = Inr m
          \<longrightarrow> (\<exists>pm. map_of (files (snd (BuildManifest L path True False w)))
                         (Clean (Join path cacheName))
                       = Some (File (marshalIndentManifest L m) pm)
                     \<and> (map_of (files w) (Clean (Join path cacheName)) = None \<longrightarrow> pm = 384)))"
proof -
  let ?mf = "Join path ''.2c1f_manifest.json''"
  obtain w1 where st: "os_Stat w path = (Inr info, w1)"
    using assms(1) by (cases "os_Stat w path") simp
  have w1: "files w1 = files w"
    using os_Stat_files [of w path] st by simp
  obtain r2 w2 where lc: "loadCache L w1 ?mf = (r2, w2)"
    by (cases "loadCache L w1 ?mf")
  have w2: "files w2 = files w"
    using loadCache_files [of L w1 ?mf] lc w1 by simp
  have hit: "fst (BuildManifest L path True False w) = Inr cached
              \<and> files (snd (BuildManifest L path True False w)) = files w"
    if "map_of (files w) (Clean ?mf) = Some (File data pm)" "unmarshalManifest L data = Some cached"
  proof -
    have "r2 = Some cached"
      using loadCache_hit [of w1 ?mf data pm L] that lc w1 by simp
    then show ?thesis
      using assms(2) by (simp add: BuildManifest_def st lc w2)
  qed
  have miss: "\<exists>pm. map_of (files (snd (BuildManifest L path True False w))) (Clean ?mf)
                       = Some (File (marshalIndentManifest L m) pm)
                     \<and> (map_of (files w) (Clean ?mf) = None \<longrightarrow> pm = 384)"
    if none: "\<forall>data pm. map_of (files w) (Clean ?mf) = Some (File data pm)
                          \<longrightarrow> unmarshalManifest L data = None"
      and nodir: "map_of (files w) (Clean ?mf) \<noteq> Some Dir"
      and ok: "fst (BuildManifest L path True False w) = Inr m"
  proof -
    have r2: "r2 = None"
      using loadCache_miss [of w1 ?mf L] none lc w1 by simp
    obtain r3 w3 where hf: "hashFiles L False w2 (walkFiles (files w2) path) = (r3, w3)"
      by (cases "hashFiles L False w2 (walkFiles (files w2) path)")
    have w3: "files w3 = files w"
      using hashFiles_files [of L False w2 "walkFiles (files w2) path"] hf w2 by simp
    obtain entries where r3: "r3 = Inr entries"
      using ok assms(2) by (cases r3) (simp_all add: BuildManifest_def st lc r2 hf)
    have m: "m = \<lparr>FolderName = Base path, TotalSize = sum_list (map Size entries), Files = entries\<rparr>"
      using ok assms(2) by (simp add: BuildManifest_def st lc r2 hf r3 Let_def)
    have res: "snd (BuildManifest L path True False w)
                 = snd (os_WriteFile w3 ?mf (marshalIndentManifest L m) 384)"
      using assms(2) by (simp add: BuildManifest_def st lc r2 hf r3 Let_def m)
    show ?thesis
      unfolding res using WriteFile_result [of w3 ?mf "marshalIndentManifest L m" 384] nodir w3
      by simp
  qed
  show ?thesis
    unfolding cacheName_def using hit miss by blast
qed

lemma blocksOf_single:
  assumes "0 < n" and "bs \<noteq> []" and "length bs \<le> n"
  shows "blocksOf n bs = [bs]"
  using assms by (subst blocksOf.simps, subst blocksOf.simps) simp

lemma data_paths:
  "Clean ''/data'' = ''/data''"
  "Join ''/data'' ''.2c1f_manifest.json'' = ''/data/.2c1f_manifest.json''"
  "Clean ''/data/.2c1f_manifest.json'' = ''/data/.2c1f_manifest.json''"
  "Clean ''/data/.manifest-cache'' = ''/data/.manifest-cache''"
  "Base ''/data'' = ''data''"
  "walkFiles [(''/data'', Dir), (''/data/.manifest-cache'', File c 384)] ''/data''
     = [(''/data/.manifest-cache'', ''.manifest-cache'')]"
  by code_simp+

lemma note_json:
  "jsonManifest noteManifest \<noteq> []"
  "length (jsonManifest noteManifest) \<le> 1000"
  by code_simp+

lemma other_run:
  "BuildManifest exampleLibs ''/data'' True False otherCacheWorld
     = (Inr freshManifest,
        \<lparr>files = [(''/data'', Dir),
                  (''/data/.manifest-cache'', File (jsonManifest noteManifest) 384),
                  (''/data/.2c1f_manifest.json'', File (jsonManifest freshManifest) 384)],
         ops = [OpStat ''/data'', OpReadFile ''/data/.2c1f_manifest.json'',
                OpStat ''/data/.manifest-cache'', OpOpen ''/data/.manifest-cache'',
                OpWriteFile ''/data/.2c1f_manifest.json'']\<rparr>)"
proof -
  have b: "blocksOf (nat BlockSize_const) (jsonManifest noteManifest) = [jsonManifest noteManifest]"
    using note_json by (intro blocksOf_single) (simp_all add: BlockSize_const_def)
  show ?thesis
    by (simp add: BuildManifest_def os_Stat_def loadCache_def os_ReadFile_def
        calculateHashAndBlocks_def os_Open_def os_WriteFile_def fsPut_def logOp_def
        otherCacheWorld_def freshManifest_def data_paths b Let_def)
qed

lemma note_manifest_decode:
  "decodeAmong jsonManifest [evilManifest, noteManifest, siblingManifest] (jsonManifest noteManifest)
     = Some noteManifest"
  by code_simp

lemma cache_lookups:
  "map_of (files cachedWorld) ''/data/.2c1f_manifest.json''
     = Some (File (jsonManifest noteManifest) 384)"
  "map_of (files otherCacheWorld) ''/data/.2c1f_manifest.json'' = None"
  "map_of (files otherCacheWorld) ''/data/.manifest-cache''
     = Some (File (jsonManifest noteManifest) 384)"
  "fst (os_Stat cachedWorld ''/data'') = Inr \<lparr>isDir = True, size = 0, mode = 493\<rparr>"
  "fst (os_Stat otherCacheWorld ''/data'') = Inr \<lparr>isDir = True, size = 0, mode = 493\<rparr>"
  by (simp_all add: cachedWorld_def otherCacheWorld_def os_Stat_def data_paths)

theorem BuildManifest_cache_witness:
  "fst (os_Stat cachedWorld ''/data'') = Inr \<lparr>isDir = True, size = 0, mode = 493\<rparr>
   \<and> isDir \<lparr>isDir = True, size = 0, mode = 493\<rparr>
   \<and> map_of (files cachedWorld) (Clean (Join ''/data'' cacheName))
       = Some (File (jsonManifest noteManifest) 384)
   \<and> unmarshalManifest exampleLibs (jsonManifest noteManifest) = Some noteManifest
   \<and> fst (BuildManifest exampleLibs ''/data'' True False cachedWorld) = Inr noteManifest
   \<and> files (snd (BuildManifest exampleLibs ''/data'' True False cachedWorld)) = files cachedWorld
   \<and> fst (os_Stat otherCacheWorld ''/data'') = Inr \<lparr>isDir = True, size = 0, mode = 493\<rparr>
   \<and> map_of (files otherCacheWorld) (Clean (Join ''/data'' cacheName)) = None
   \<and> fst (BuildManifest exampleLibs ''/data'' True False otherCacheWorld) = Inr freshManifest
   \<and> map_of (files (snd (BuildManifest exampleLibs ''/data'' True False otherCacheWorld)))
         (Clean (Join ''/data'' cacheName))
       = Some (File (marshalIndentManifest exampleLibs freshManifest) 384)"
proof -
  let ?info = "\<lparr>isDir = True, size = 0, mode = 493\<rparr>"
  have p: "Clean (Join ''/data'' cacheName) = ''/data/.2c1f_manifest.json''"
    by (simp add: cacheName_def data_paths)
  have a1: "fst (os_Stat cachedWorld ''/data'') = Inr ?info"
    and b1: "fst (os_Stat otherCacheWorld ''/data'') = Inr ?info"
    by (simp_all add: cache_lookups)
  have a2: "isDir ?info"
    by simp
  have a3: "map_of (files cachedWorld) (Clean (Join ''/data'' cacheName))
              = Some (File (jsonManifest noteManifest) 384)"
    by (simp add: p cache_lookups)
  have a4: "unmarshalManifest exampleLibs (jsonManifest noteManifest) = Some noteManifest"
    by (simp add: note_manifest_decode)
  from BuildManifest_cache [OF a1 a2, of "jsonManifest noteManifest" 384 exampleLibs noteManifest]
    a3 a4
  have a5: "fst (BuildManifest exampleLibs ''/data'' True False cachedWorld) = Inr noteManifest
     \<and> files (snd (BuildManifest exampleLibs ''/data'' True False cachedWorld)) = files cachedWorld"
    by blast
  have b2: "map_of (files otherCacheWorld) (Clean (Join ''/data'' cacheName)) = None"
    by (simp add: p cache_lookups)
  have b3: "fst (BuildManifest exampleLibs ''/data'' True False otherCacheWorld) = Inr freshManifest"
    by (simp add: other_run)
  from BuildManifest_cache [OF b1 a2, of _ _ exampleLibs _ freshManifest] b2 b3
  have b4: "map_of (files (snd (BuildManifest exampleLibs ''/data'' True False otherCacheWorld)))
         (Clean (Join ''/data'' cacheName))
       = Some (File (marshalIndentManifest exampleLibs freshManifest) 384)"
    by auto
  from a1 a2 a3 a4 a5 b1 b2 b3 b4 show ?thesis
    by blast
qed

text \<open>
  C8 as stated fails: in a directory that holds a well-formed manifest under the name
  \<^verbatim>\<open>.manifest-cache\<close>, \<open>BuildManifest\<close> with the cache enabled never reads that file as
  a cache. It looks for \<^verbatim>\<open>.2c1f_manifest.json\<close>, builds the manifest afresh, with
  \<^verbatim>\<open>.manifest-cache\<close> as one of the files to send, and writes the cache to
  \<^verbatim>\<open>.2c1f_manifest.json\<close>.
\<close>

theorem BuildManifest_cache_counterexample:
  "map_of (files otherCacheWorld) ''/data/.manifest-cache''
     = Some (File (jsonManifest noteManifest) 384)
   \<and> unmarshalManifest exampleLibs (jsonManifest noteManifest) = Some noteManifest
   \<and> BuildManifest exampleLibs ''/data'' True False otherCacheWorld
     = (Inr freshManifest,
        \<lparr>files = [(''/data'', Dir),
                  (''/data/.manifest-cache'', File (jsonManifest noteManifest) 384),
                  (''/data/.2c1f_manifest.json'', File (jsonManifest freshManifest) 384)],
         ops = [OpStat ''/data'', OpReadFile ''/data/.2c1f_manifest.json'',
                OpStat ''/data/.manifest-cache'', OpOpen ''/data/.manifest-cache'',
                OpWriteFile ''/data/.2c1f_manifest.json'']\<rparr>)
   \<and> freshManifest \<noteq> noteManifest"
proof -
  have "FolderName freshManifest \<noteq> FolderName noteManifest"
    by (simp add: freshManifest_def noteManifest_def)
  then have "freshManifest \<noteq> noteManifest"
    by auto
  then show ?thesis
    by (simp add: cache_lookups note_manifest_decode other_run)
qed


end
